theory Spec2Isabelle
  imports Complex_Main "HOL-Library.Word"
begin

section \<open>Data model of the herder\<close>

text \<open>
  The herder of \<^verbatim>\<open>src/herder/Herder.cpp\<close> is a single-threaded object. Its member
  functions are embedded as functions from a herder state to the next state.
  Everything the herder only reads from its collaborators (configuration, clock,
  ledger, serialisation, transaction accessors) is a field of the record
  \<open>Application\<close>. Every call the herder makes into a collaborator (a result
  callback, the slot machine, the ledger, the overlay, the bump timer) is appended
  to the field \<open>effects\<close> of the state, oldest first.
\<close>

type_synonym uint64 = "64 word"
type_synonym uint32 = "32 word"
type_synonym int32 = "32 word"

text \<open>Hashes, node identifiers and opaque XDR values.\<close>

type_synonym Hash = nat
type_synonym uint256 = nat
type_synonym Value = "8 word list"

text \<open>
  A \<^verbatim>\<open>TransactionFramePtr\<close> is a shared pointer. It is embedded as the address
  it holds: \<^verbatim>\<open>std::find\<close> over a vector of such pointers compares addresses, and
  the accessors of the frame are functions of the address (fields of
  \<open>Application\<close>).
\<close>

type_synonym TransactionFramePtr = nat

text \<open>A \<^verbatim>\<open>std::function<void(bool)>\<close> result callback, by identity.\<close>

type_synonym callback = nat

text \<open>
  Modelled from the spec: the XDR declarations are not among the sources. Section 3
  gives the value as \<open>{txSetHash: Hash, closeTime: uint64, baseFee: uint32}\<close>,
  the ballot as \<open>{counter: uint32, value}\<close>, the envelope with
  \<open>slotIndex: uint64\<close> and the ledger header as \<open>{ledgerSeq, closeTime, hash}\<close>.
  The field \<^verbatim>\<open>value\<close> of the source is written \<open>value_sb\<close> in a
  \<open>StellarBallot\<close> and \<open>value_fb\<close> in an \<open>FBABallot\<close>; the header's close time is
  \<open>closeTime_lh\<close>.
\<close>

record StellarBallotValue =
  txSetHash :: Hash
  closeTime :: uint64
  baseFee :: uint32

record StellarBallot =
  value_sb :: StellarBallotValue

record FBABallot =
  counter :: uint32
  value_fb :: Value

record FBAEnvelope =
  slotIndex :: uint64
  nodeID :: uint256
  statement :: nat

record LedgerHeader =
  hash :: Hash
  ledgerSeq :: uint64
  closeTime_lh :: uint64

text \<open>
  Modelled from the spec: \<^verbatim>\<open>TxSetFrame.h\<close> is not among the sources. A TxSet holds
  its transactions and a previous-ledger hash; \<^verbatim>\<open>add\<close> appends a transaction.
\<close>

record TxSetFrame =
  mTransactions :: "TransactionFramePtr list"
  mPreviousLedgerHash :: Hash

definition add_tx :: "TransactionFramePtr \<Rightarrow> TxSetFrame \<Rightarrow> TxSetFrame" where
  "add_tx tx t = t\<lparr>mTransactions := mTransactions t @ [tx]\<rparr>"

text \<open>
  Modelled from the spec: \<^verbatim>\<open>Application::State\<close> is not among the sources; section 6
  has \<open>getState()\<close> at least distinguish SYNCED.
\<close>

datatype AppState = SYNCED_STATE | OTHER_STATE

text \<open>
  Modelled from the spec: the header \<^verbatim>\<open>Herder.h\<close> with the macros
  \<^verbatim>\<open>MAX_FBA_TIMEOUT_SECONDS\<close>, \<^verbatim>\<open>MAX_TIME_SLIP_SECONDS\<close> and
  \<^verbatim>\<open>LEDGER_VALIDITY_BRACKET\<close>, and the configuration's declaration of
  \<^verbatim>\<open>DESIRED_BASE_FEE\<close>, are not among the sources; section 6 gives them as
  non-negative integers, so they are parameters of type \<open>nat\<close>. The other fields
  are what the herder reads from its collaborators: \<open>clockNow\<close> is
  \<^verbatim>\<open>VirtualClock::pointToTimeT(mApp.getClock().now())\<close>, the clock in whole
  seconds; the functions are the serialisation of ballots, the contents hash and
  the validity of a TxSet, and the accessors of a transaction frame and of its
  source account.
\<close>

record Application =
  DESIRED_BASE_FEE :: nat
  MAX_FBA_TIMEOUT_SECONDS :: nat
  MAX_TIME_SLIP_SECONDS :: nat
  LEDGER_VALIDITY_BRACKET :: nat
  clockNow :: uint64
  getState :: AppState
  getTxFee :: int
  xdr_from_opaque :: "Value \<Rightarrow> StellarBallot option"
  xdr_to_opaque :: "StellarBallot \<Rightarrow> Value"
  getContentsHash :: "TxSetFrame \<Rightarrow> Hash"
  checkValid_txSet :: "TxSetFrame \<Rightarrow> bool"
  getFullHash :: "TransactionFramePtr \<Rightarrow> Hash"
  getSourceID :: "TransactionFramePtr \<Rightarrow> uint256"
  getSeqNum :: "TransactionFramePtr \<Rightarrow> int"
  loadAccount :: "TransactionFramePtr \<Rightarrow> bool"
  sourceAccountSeqNum :: "TransactionFramePtr \<Rightarrow> int"
  sourceAccountBalance :: "TransactionFramePtr \<Rightarrow> int"
  checkValid_tx :: "TransactionFramePtr \<Rightarrow> bool"

text \<open>
  The two closures named \<^verbatim>\<open>validate\<close>, with what they capture
  (\<^verbatim>\<open>[cb, b, slotIndex, nodeID, this]\<close>): the one built by \<^verbatim>\<open>validateValue\<close> and
  the one built by \<^verbatim>\<open>validateBallot\<close>.
\<close>

datatype continuation =
    ValidateValue callback StellarBallot uint64 uint256
  | ValidateBallot callback StellarBallot uint64 uint256

datatype event =
    Callback callback bool
  | ReceiveEnvelope FBAEnvelope callback
  | PrepareValue uint64 Value bool
  | ExternalizeValue TxSetFrame
  | BroadcastTransaction TransactionFramePtr
  | BumpTimerCancel
  | ErrorLogged

text \<open>
  Modelled from the spec: the item fetcher is not among the sources. Section 4.1:
  \<open>fetchItem\<close> returns a cached artifact if present, otherwise, if \<open>askNetwork\<close>,
  issues a request and returns absent; \<open>recvItem\<close> stores the artifact and returns
  true iff a fetch for its hash was outstanding (the fetch ends there);
  \<open>stopFetchingAll\<close> stops the outstanding fetches; \<open>clear\<close> wipes the buffer.
\<close>

record TxSetFetcher =
  items :: "Hash \<rightharpoonup> TxSetFrame"
  fetching :: "Hash set"

definition empty_fetcher :: TxSetFetcher where
  "empty_fetcher = \<lparr>items = Map.empty, fetching = {}\<rparr>"

definition fetchItem :: "Hash \<Rightarrow> bool \<Rightarrow> TxSetFetcher \<Rightarrow> TxSetFrame option \<times> TxSetFetcher" where
  "fetchItem h askNetwork f =
     (case items f h of
        Some t \<Rightarrow> (Some t, f)
      | None \<Rightarrow> (None, if askNetwork then f\<lparr>fetching := insert h (fetching f)\<rparr> else f))"

definition recvItem :: "Application \<Rightarrow> TxSetFrame \<Rightarrow> TxSetFetcher \<Rightarrow> bool \<times> TxSetFetcher" where
  "recvItem app t f =
     (let h = getContentsHash app t
      in (h \<in> fetching f, f\<lparr>items := (items f)(h \<mapsto> t), fetching := fetching f - {h}\<rparr>))"

definition stopFetchingAll :: "TxSetFetcher \<Rightarrow> TxSetFetcher" where
  "stopFetchingAll f = f\<lparr>fetching := {}\<rparr>"

definition clear :: "TxSetFetcher \<Rightarrow> TxSetFetcher" where
  "clear f = empty_fetcher"

text \<open>The members of \<^verbatim>\<open>Herder\<close> that the embedded functions touch, and the effects.\<close>

record Herder =
  mReceivedTransactions :: "TransactionFramePtr list list"
  mTxSetFetcher :: "TxSetFetcher list"
  mCurrentTxSetFetcher :: nat
  mTxSetFetches :: "Hash \<rightharpoonup> continuation list"
  mFutureEnvelopes :: "uint64 \<rightharpoonup> (FBAEnvelope \<times> callback) list"
  mLedgersToWaitToParticipate :: nat
  mLastTrigger :: uint64
  mLastClosedLedger :: LedgerHeader
  mLocalValue :: Value
  effects :: "event list"

text \<open>
  The constructor: four buckets of received transactions, two empty TxSet fetchers
  with the first one current, three ledgers to wait.
\<close>

definition Herder_new :: "Application \<Rightarrow> Herder" where
  "Herder_new app =
     \<lparr>mReceivedTransactions = replicate 4 [],
      mTxSetFetcher = [empty_fetcher, empty_fetcher],
      mCurrentTxSetFetcher = 0,
      mTxSetFetches = Map.empty,
      mFutureEnvelopes = Map.empty,
      mLedgersToWaitToParticipate = 3,
      mLastTrigger = clockNow app,
      mLastClosedLedger = \<lparr>hash = 0, ledgerSeq = 0, closeTime_lh = 0\<rparr>,
      mLocalValue = [],
      effects = []\<rparr>"

text \<open>
  What the constructor establishes and no member function changes: the sizes of the
  two arrays and the range of the index into the fetchers.
\<close>

definition wf_herder :: "Herder \<Rightarrow> bool" where
  "wf_herder s \<longleftrightarrow>
     length (mReceivedTransactions s) = 4 \<and> length (mTxSetFetcher s) = 2 \<and>
     mCurrentTxSetFetcher s < 2"

definition emit :: "event \<Rightarrow> Herder \<Rightarrow> Herder" where
  "emit e s = s\<lparr>effects := effects s @ [e]\<rparr>"

section \<open>Fetching and receiving TxSets\<close>

definition fetchTxSet :: "Hash \<Rightarrow> bool \<Rightarrow> Herder \<Rightarrow> TxSetFrame option \<times> Herder" where
  "fetchTxSet h askNetwork s =
     (let cur = mCurrentTxSetFetcher s;
          (r, f) = fetchItem h askNetwork (mTxSetFetcher s ! cur)
      in (r, s\<lparr>mTxSetFetcher := (mTxSetFetcher s)[cur := f]\<rparr>))"

text \<open>
  The loop of the closure of \<^verbatim>\<open>validateBallot\<close> over the last bucket: it stops
  at the first transaction that \<^verbatim>\<open>std::find\<close> does not find in the TxSet.
\<close>

fun missing_received :: "TransactionFramePtr list \<Rightarrow> TransactionFramePtr list \<Rightarrow> bool" where
  "missing_received [] txs = False"
| "missing_received (tx # rest) txs =
     (if tx \<notin> set txs then True else missing_received rest txs)"

fun validate :: "Application \<Rightarrow> continuation \<Rightarrow> TxSetFrame \<Rightarrow> Herder \<Rightarrow> Herder" where
  "validate app (ValidateValue cb b slot node) txSet s =
     (if mLedgersToWaitToParticipate s = 0 \<and> \<not> checkValid_txSet app txSet
      then emit (Callback cb False) s
      else emit (Callback cb True) s)"
| "validate app (ValidateBallot cb b slot node) txSet s =
     (if missing_received
           (mReceivedTransactions s ! (length (mReceivedTransactions s) - 1))
           (mTransactions txSet)
      then emit (Callback cb False) s
      else emit (Callback cb True) s)"

text \<open>\<^verbatim>\<open>mTxSetFetches[h].push_back(validate)\<close>\<close>

definition push_fetch :: "Hash \<Rightarrow> continuation \<Rightarrow> Herder \<Rightarrow> Herder" where
  "push_fetch h k s =
     s\<lparr>mTxSetFetches :=
         (mTxSetFetches s)(h \<mapsto> (case mTxSetFetches s h of None \<Rightarrow> [] | Some ks \<Rightarrow> ks) @ [k])\<rparr>"

section \<open>Received transactions\<close>

text \<open>
  The two nested loops of \<^verbatim>\<open>recvTransaction\<close>: \<open>None\<close> when a transaction with
  the same full hash is met (the function returns false there), otherwise the
  count of transactions of the same source account.
\<close>

fun scan_list :: "Application \<Rightarrow> TransactionFramePtr \<Rightarrow> TransactionFramePtr list \<Rightarrow> int \<Rightarrow> int option" where
  "scan_list app tx [] numOthers = Some numOthers"
| "scan_list app tx (oldTX # rest) numOthers =
     (if getFullHash app tx = getFullHash app oldTX then None
      else scan_list app tx rest
             (if getSourceID app oldTX = getSourceID app tx then numOthers + 1 else numOthers))"

fun scan_received :: "Application \<Rightarrow> TransactionFramePtr \<Rightarrow> TransactionFramePtr list list \<Rightarrow> int \<Rightarrow> int option" where
  "scan_received app tx [] numOthers = Some numOthers"
| "scan_received app tx (list # others) numOthers =
     (case scan_list app tx list numOthers of
        None \<Rightarrow> None
      | Some n \<Rightarrow> scan_received app tx others n)"

definition recvTransaction :: "Application \<Rightarrow> TransactionFramePtr \<Rightarrow> Herder \<Rightarrow> bool \<times> Herder" where
  "recvTransaction app tx s =
     (case scan_received app tx (mReceivedTransactions s) 0 of
        None \<Rightarrow> (False, s)
      | Some numOthers \<Rightarrow>
          if \<not> loadAccount app tx then (False, s)
          else if getSeqNum app tx < sourceAccountSeqNum app tx + 1 then (False, s)
          else if sourceAccountBalance app tx < (numOthers + 1) * getTxFee app then (False, s)
          else if \<not> checkValid_tx app tx then (False, s)
          else (True,
                s\<lparr>mReceivedTransactions :=
                    (mReceivedTransactions s)[0 := mReceivedTransactions s ! 0 @ [tx]]\<rparr>))"

text \<open>
  \<^verbatim>\<open>removeReceivedTx\<close> iterates with \<^verbatim>\<open>for (auto list : mReceivedTransactions)\<close>:
  each bucket is copied, \<^verbatim>\<open>list.erase(iter)\<close> erases the first transaction of
  the same full hash from the copy, and the function returns. \<open>erase_first\<close> is
  the inner loop on one copy (\<open>None\<close> when nothing matches), \<open>erased_copy\<close> the
  outer loop; the copy is dropped and the member itself is never written.
\<close>

fun erase_first :: "Application \<Rightarrow> TransactionFramePtr \<Rightarrow> TransactionFramePtr list \<Rightarrow> TransactionFramePtr list option" where
  "erase_first app dropTx [] = None"
| "erase_first app dropTx (x # xs) =
     (if getFullHash app x = getFullHash app dropTx then Some xs
      else map_option ((#) x) (erase_first app dropTx xs))"

fun erased_copy :: "Application \<Rightarrow> TransactionFramePtr \<Rightarrow> TransactionFramePtr list list \<Rightarrow> TransactionFramePtr list option" where
  "erased_copy app dropTx [] = None"
| "erased_copy app dropTx (list # others) =
     (case erase_first app dropTx list of
        Some copy \<Rightarrow> Some copy
      | None \<Rightarrow> erased_copy app dropTx others)"

definition removeReceivedTx :: "Application \<Rightarrow> TransactionFramePtr \<Rightarrow> Herder \<Rightarrow> Herder" where
  "removeReceivedTx app dropTx s =
     (let copy = erased_copy app dropTx (mReceivedTransactions s) in s)"

definition recvTxSet :: "Application \<Rightarrow> TxSetFrame \<Rightarrow> Herder \<Rightarrow> Herder" where
  "recvTxSet app txSet s =
     (let cur = mCurrentTxSetFetcher s;
          (wanted, f) = recvItem app txSet (mTxSetFetcher s ! cur);
          s1 = s\<lparr>mTxSetFetcher := (mTxSetFetcher s)[cur := f]\<rparr>
      in if wanted then
           (let s2 = foldl (\<lambda>t tx. snd (recvTransaction app tx t)) s1 (mTransactions txSet);
                h = getContentsHash app txSet
            in case mTxSetFetches s2 h of
                 None \<Rightarrow> s2
               | Some ks \<Rightarrow>
                   (let s3 = foldl (\<lambda>t k. validate app k txSet t) s2 ks
                    in s3\<lparr>mTxSetFetches := (mTxSetFetches s3)(h := None)\<rparr>))
         else s1)"

section \<open>Validation of values and ballots\<close>

definition validateValue :: "Application \<Rightarrow> uint64 \<Rightarrow> uint256 \<Rightarrow> Value \<Rightarrow> callback \<Rightarrow> Herder \<Rightarrow> Herder" where
  "validateValue app slot node v cb s =
     (case xdr_from_opaque app v of
        None \<Rightarrow> emit (Callback cb False) s
      | Some b \<Rightarrow>
          if mLedgersToWaitToParticipate s = 0 \<and>
             ledgerSeq (mLastClosedLedger s) + 1 \<noteq> slot
          then emit (Callback cb False) s
          else if mLedgersToWaitToParticipate s = 0 \<and>
             closeTime (value_sb b) \<le> closeTime_lh (mLastClosedLedger s)
          then emit (Callback cb False) s
          else
            (let (r, s1) = fetchTxSet (txSetHash (value_sb b)) True s
             in case r of
                  None \<Rightarrow> push_fetch (txSetHash (value_sb b)) (ValidateValue cb b slot node) s1
                | Some txSet \<Rightarrow> validate app (ValidateValue cb b slot node) txSet s1))"

text \<open>
  What stops a run short of its result: the conversion \<^verbatim>\<open>(int)pow(2.0, i)\<close> of a
  double that no \<^verbatim>\<open>int\<close> holds and a subtraction of two \<^verbatim>\<open>int\<close>s whose
  difference no \<^verbatim>\<open>int\<close> holds, both of which C++ leaves undefined, and a failed
  \<^verbatim>\<open>assert\<close>.
\<close>

datatype fault = FloatToIntOutOfRange | AssertionFailed | SignedOverflow

definition pow2_int :: "nat \<Rightarrow> nat option" where
  "pow2_int i = (if i < 31 then Some (2 ^ i) else None)"

text \<open>
  The loop \<^verbatim>\<open>for (int i = 0; i < ballot.counter; i ++)\<close> that adds
  \<^verbatim>\<open>std::min(MAX_FBA_TIMEOUT_SECONDS, (int)pow(2.0, i))\<close> to the 64-bit
  \<^verbatim>\<open>sumTimeouts\<close>.
\<close>

function sumTimeouts_loop :: "nat \<Rightarrow> nat \<Rightarrow> nat \<Rightarrow> uint64 \<Rightarrow> fault + uint64" where
  "sumTimeouts_loop mx cnt i acc =
     (if i < cnt then
        (case pow2_int i of
           None \<Rightarrow> Inl FloatToIntOutOfRange
         | Some p \<Rightarrow> sumTimeouts_loop mx cnt (Suc i) (acc + of_nat (min mx p)))
      else Inr acc)"
  by pat_completeness auto
termination
  by (relation "measure (\<lambda>(mx, cnt, i, acc). cnt - i)") auto

declare sumTimeouts_loop.simps [simp del]

text \<open>
  \<^verbatim>\<open>b.value.closeTime > timeNow + MAX_TIME_SLIP_SECONDS\<close>, in 64-bit unsigned
  arithmetic.
\<close>

definition closeTime_too_far :: "Application \<Rightarrow> StellarBallot \<Rightarrow> bool" where
  "closeTime_too_far app b \<longleftrightarrow>
     closeTime (value_sb b) > clockNow app + of_nat (MAX_TIME_SLIP_SECONDS app)"

text \<open>
  \<^verbatim>\<open>timeNow + MAX_TIME_SLIP_SECONDS < (int)(lastTrigger + sumTimeouts)\<close>: the
  64-bit sum is cut to an \<^verbatim>\<open>int\<close>, and for the comparison with the 64-bit left
  side that \<^verbatim>\<open>int\<close> is converted back with its sign.
\<close>

definition counter_too_fast :: "Application \<Rightarrow> uint64 \<Rightarrow> uint64 \<Rightarrow> bool" where
  "counter_too_fast app lastTrigger sumTimeouts \<longleftrightarrow>
     clockNow app + of_nat (MAX_TIME_SLIP_SECONDS app)
       < (scast (ucast (lastTrigger + sumTimeouts) :: int32) :: uint64)"

text \<open>
  \<^verbatim>\<open>b.value.baseFee < DESIRED_BASE_FEE * .5\<close> is a comparison of doubles: both
  sides are integers or halves of integers, which doubles hold exactly below
  \<open>2 ^ 53\<close>, so the comparison is the one of the real numbers.
  \<^verbatim>\<open>b.value.baseFee > DESIRED_BASE_FEE * 2\<close> is a comparison of integers.
\<close>

definition baseFee_out_of_range :: "Application \<Rightarrow> StellarBallot \<Rightarrow> bool" where
  "baseFee_out_of_range app b \<longleftrightarrow>
     (if real (unat (baseFee (value_sb b))) < real (DESIRED_BASE_FEE app) * 0.5 then True
      else unat (baseFee (value_sb b)) > DESIRED_BASE_FEE app * 2)"

definition validateBallot :: "Application \<Rightarrow> uint64 \<Rightarrow> uint256 \<Rightarrow> FBABallot \<Rightarrow> callback \<Rightarrow> Herder \<Rightarrow> fault + Herder" where
  "validateBallot app slot node ballot cb s =
     (case xdr_from_opaque app (value_fb ballot) of
        None \<Rightarrow> Inr (emit (Callback cb False) s)
      | Some b \<Rightarrow>
          if closeTime_too_far app b then Inr (emit (Callback cb False) s)
          else
            (case sumTimeouts_loop (MAX_FBA_TIMEOUT_SECONDS app) (unat (counter ballot)) 0 0 of
               Inl x \<Rightarrow> Inl x
             | Inr sumTimeouts \<Rightarrow>
                 if counter_too_fast app (mLastTrigger s) sumTimeouts
                 then Inr (emit (Callback cb False) s)
                 else if baseFee_out_of_range app b then Inr (emit (Callback cb False) s)
                 else
                   (let (r, s1) = fetchTxSet (txSetHash (value_sb b)) True s
                    in case r of
                         None \<Rightarrow>
                           Inr (push_fetch (txSetHash (value_sb b)) (ValidateBallot cb b slot node) s1)
                       | Some txSet \<Rightarrow>
                           Inr (validate app (ValidateBallot cb b slot node) txSet s1))))"

section \<open>Externalization\<close>

text \<open>
  The loop \<^verbatim>\<open>for (size_t n = size - 1; n > 0; n--)\<close> that appends bucket
  \<open>n - 1\<close> to bucket \<open>n\<close> and empties bucket \<open>n - 1\<close>; the first argument is
  \<open>n\<close>.
\<close>

fun shift_received :: "nat \<Rightarrow> TransactionFramePtr list list \<Rightarrow> TransactionFramePtr list list" where
  "shift_received 0 rt = rt"
| "shift_received (Suc m) rt =
     shift_received m (rt[Suc m := rt ! Suc m @ rt ! m, m := []])"

text \<open>
  The ballot that \<^verbatim>\<open>valueExternalized\<close> goes on with when decoding throws: the
  default-constructed one.
\<close>

definition default_ballot :: StellarBallot where
  "default_ballot = \<lparr>value_sb = \<lparr>txSetHash = 0, closeTime = 0, baseFee = 0\<rparr>\<rparr>"

definition valueExternalized :: "Application \<Rightarrow> uint64 \<Rightarrow> Value \<Rightarrow> Herder \<Rightarrow> fault + Herder" where
  "valueExternalized app slot v s =
     (let s0 = emit BumpTimerCancel s;
          (b, s1) = (case xdr_from_opaque app v of
                       Some b \<Rightarrow> (b, s0)
                     | None \<Rightarrow> (default_ballot, emit ErrorLogged s0));
          (r, s2) = fetchTxSet (txSetHash (value_sb b)) False s1
      in case r of
           Some externalizedSet \<Rightarrow>
             (let old = mCurrentTxSetFetcher s2;
                  s3 = s2\<lparr>mTxSetFetcher :=
                            (mTxSetFetcher s2)[old := stopFetchingAll (mTxSetFetcher s2 ! old)]\<rparr>;
                  cur = (if old \<noteq> 0 then 0 else 1);
                  s4 = s3\<lparr>mCurrentTxSetFetcher := cur\<rparr>;
                  s5 = s4\<lparr>mTxSetFetcher :=
                            (mTxSetFetcher s4)[cur := clear (mTxSetFetcher s4 ! cur)]\<rparr>;
                  s6 = emit (ExternalizeValue externalizedSet) s5;
                  s7 = foldl (\<lambda>t tx. removeReceivedTx app tx t) s6 (mTransactions externalizedSet)
              in if length (mReceivedTransactions s7) < 2 then Inl AssertionFailed
                 else
                   (let s8 = foldl (\<lambda>t tx. emit (BroadcastTransaction tx) t) s7
                               (mReceivedTransactions s7 ! 1)
                    in Inr (s8\<lparr>mReceivedTransactions :=
                                 shift_received (length (mReceivedTransactions s8) - 1)
                                   (mReceivedTransactions s8)\<rparr>)))
         | None \<Rightarrow> Inr (emit ErrorLogged s2))"

section \<open>Envelopes, ledger close and the trigger\<close>

text \<open>\<^verbatim>\<open>FBA::receiveEnvelope\<close>: the envelope is handed to the slot machine.\<close>

definition receiveEnvelope :: "FBAEnvelope \<Rightarrow> callback \<Rightarrow> Herder \<Rightarrow> Herder" where
  "receiveEnvelope envelope cb s = emit (ReceiveEnvelope envelope cb) s"

text \<open>
  \<^verbatim>\<open>((int)ledgerSeq - LEDGER_VALIDITY_BRACKET) < 0 ? 0 : (ledgerSeq - LEDGER_VALIDITY_BRACKET)\<close>:
  the cast keeps the low 32 bits of the sequence number, read in two's complement,
  and the test subtracts the bracket from it as an \<^verbatim>\<open>int\<close>. A difference below
  \<open>- 2 ^ 31\<close> is a signed overflow: the run has no defined result from there. The
  difference of the last operand is made on 64-bit unsigned integers.
\<close>

definition minLedgerSeq :: "Application \<Rightarrow> Herder \<Rightarrow> fault + uint64" where
  "minLedgerSeq app s =
     (let d = sint (ucast (ledgerSeq (mLastClosedLedger s)) :: int32)
                - int (LEDGER_VALIDITY_BRACKET app)
      in if d < - (2 ^ 31) then Inl SignedOverflow
         else if d < 0 then Inr 0
         else Inr (ledgerSeq (mLastClosedLedger s) - of_nat (LEDGER_VALIDITY_BRACKET app)))"

definition maxLedgerSeq :: "Application \<Rightarrow> Herder \<Rightarrow> uint64" where
  "maxLedgerSeq app s = ledgerSeq (mLastClosedLedger s) + of_nat (LEDGER_VALIDITY_BRACKET app)"

text \<open>\<^verbatim>\<open>mFutureEnvelopes[slotIndex].push_back(std::make_pair(envelope, cb))\<close>\<close>

definition push_future :: "FBAEnvelope \<Rightarrow> callback \<Rightarrow> Herder \<Rightarrow> Herder" where
  "push_future envelope cb s =
     s\<lparr>mFutureEnvelopes :=
         (mFutureEnvelopes s)(slotIndex envelope \<mapsto>
            (case mFutureEnvelopes s (slotIndex envelope) of None \<Rightarrow> [] | Some ps \<Rightarrow> ps)
              @ [(envelope, cb)])\<rparr>"

definition recvFBAEnvelope :: "Application \<Rightarrow> FBAEnvelope \<Rightarrow> callback \<Rightarrow> Herder \<Rightarrow> fault + Herder" where
  "recvFBAEnvelope app envelope cb s =
     (if mLedgersToWaitToParticipate s = 0 then
        (case minLedgerSeq app s of
           Inl x \<Rightarrow> Inl x
         | Inr minSeq \<Rightarrow>
             if slotIndex envelope > maxLedgerSeq app s \<or> slotIndex envelope < minSeq
             then Inr s
             else
               (let s1 = (if slotIndex envelope > ledgerSeq (mLastClosedLedger s) + 1
                          then push_future envelope cb s else s)
                in Inr (receiveEnvelope envelope cb s1)))
      else Inr (receiveEnvelope envelope cb s))"

text \<open>
  The loop \<^verbatim>\<open>for (auto p : mFutureEnvelopes[slotIndex])\<close> of
  \<^verbatim>\<open>triggerNextLedger\<close>, which hands every buffered pair to
  \<^verbatim>\<open>recvFBAEnvelope\<close>.
\<close>

fun replay_future :: "Application \<Rightarrow> (FBAEnvelope \<times> callback) list \<Rightarrow> Herder \<Rightarrow> fault + Herder" where
  "replay_future app [] s = Inr s"
| "replay_future app (p # rest) s =
     (case recvFBAEnvelope app (fst p) (snd p) s of
        Inl x \<Rightarrow> Inl x
      | Inr s1 \<Rightarrow> replay_future app rest s1)"

text \<open>
  \<^verbatim>\<open>ledgerClosed\<close> begins with an unconditional \<^verbatim>\<open>return\<close> (commented
  \<^verbatim>\<open>TODO(spolu): No infinite loop for now\<close>); the statements after it are
  never executed.
\<close>

definition ledgerClosed :: "Application \<Rightarrow> LedgerHeader \<Rightarrow> Herder \<Rightarrow> Herder" where
  "ledgerClosed app ledger s = s"

text \<open>A run of ledger closes, each with the application as it is at that close.\<close>

fun ledgerCloses :: "(Application \<times> LedgerHeader) list \<Rightarrow> Herder \<Rightarrow> Herder" where
  "ledgerCloses [] s = s"
| "ledgerCloses ((app, ledger) # rest) s = ledgerCloses rest (ledgerClosed app ledger s)"

text \<open>The TxSet that \<^verbatim>\<open>triggerNextLedger\<close> assembles from every bucket in turn.\<close>

definition proposedSet :: "Herder \<Rightarrow> TxSetFrame" where
  "proposedSet s =
     (foldl (\<lambda>t list. foldl (\<lambda>t' tx. add_tx tx t') t list)
        \<lparr>mTransactions = [], mPreviousLedgerHash = 0\<rparr>
        (mReceivedTransactions s))
     \<lparr>mPreviousLedgerHash := hash (mLastClosedLedger s)\<rparr>"

text \<open>
  \<^verbatim>\<open>nextCloseTime\<close>: the trigger time, or the last close time plus one (in 64-bit
  unsigned arithmetic) when the trigger time is not after the last close time.
\<close>

definition nextCloseTime :: "Herder \<Rightarrow> uint64" where
  "nextCloseTime s =
     (if mLastTrigger s \<le> closeTime_lh (mLastClosedLedger s)
      then closeTime_lh (mLastClosedLedger s) + 1
      else mLastTrigger s)"

text \<open>
  The ballot \<^verbatim>\<open>b\<close> that \<^verbatim>\<open>triggerNextLedger\<close> fills in and encodes: the contents
  hash of the proposed TxSet, the next close time and the desired base fee.
\<close>

definition proposedBallot :: "Application \<Rightarrow> TxSetFrame \<Rightarrow> Herder \<Rightarrow> StellarBallot" where
  "proposedBallot app proposed s =
     \<lparr>value_sb = \<lparr>txSetHash = getContentsHash app proposed,
                   closeTime = nextCloseTime s,
                   baseFee = of_nat (DESIRED_BASE_FEE app)\<rparr>\<rparr>"

definition triggerNextLedger :: "Application \<Rightarrow> bool \<Rightarrow> Herder \<Rightarrow> fault + Herder" where
  "triggerNextLedger app error s =
     (if error then Inl AssertionFailed
      else
        (let s1 = s\<lparr>mLastTrigger := clockNow app\<rparr>;
             proposed = proposedSet s1;
             (r, s2) = fetchTxSet (getContentsHash app proposed) True s1;
             s3 = recvTxSet app proposed s2;
             slot = ledgerSeq (mLastClosedLedger s3) + 1;
             b = proposedBallot app proposed s3;
             s4 = s3\<lparr>mLocalValue := xdr_to_opaque app b\<rparr>;
             s5 = emit (PrepareValue slot (mLocalValue s4) False) s4
         in case replay_future app
                   (case mFutureEnvelopes s5 slot of None \<Rightarrow> [] | Some ps \<Rightarrow> ps) s5 of
              Inl x \<Rightarrow> Inl x
            | Inr s6 \<Rightarrow> Inr (s6\<lparr>mFutureEnvelopes := (mFutureEnvelopes s6)(slot := None)\<rparr>)))"

section \<open>The spec's sum of timeouts\<close>

text \<open>
  Section 4.3 of the spec: \<open>\<Sigma>(k)\<close> is the sum over \<open>i\<close> from \<open>0\<close> to \<open>k - 1\<close> of
  \<open>min(MAX_FBA_TIMEOUT_SECONDS, 2^i)\<close>.
\<close>

primrec Sigma_timeouts :: "nat \<Rightarrow> nat \<Rightarrow> nat" where
  "Sigma_timeouts mx 0 = 0"
| "Sigma_timeouts mx (Suc k) = Sigma_timeouts mx k + min mx (2 ^ k)"

section \<open>Concrete applications and herders\<close>

text \<open>
  A small application to evaluate the functions on: a three-byte encoding of
  ballots, transactions whose full hash is the address divided by ten (so that two
  frames at different addresses can carry the same transaction), and a herder that
  is fully synced on ledger 10.
\<close>

fun example_decode :: "Value \<Rightarrow> StellarBallot option" where
  "example_decode [h, c, f] =
     Some \<lparr>value_sb = \<lparr>txSetHash = unat h, closeTime = ucast c, baseFee = ucast f\<rparr>\<rparr>"
| "example_decode v = None"

definition example_encode :: "StellarBallot \<Rightarrow> Value" where
  "example_encode b =
     [of_nat (txSetHash (value_sb b)), ucast (closeTime (value_sb b)), ucast (baseFee (value_sb b))]"

definition example_app :: Application where
  "example_app =
     \<lparr>DESIRED_BASE_FEE = 10, MAX_FBA_TIMEOUT_SECONDS = 30, MAX_TIME_SLIP_SECONDS = 60,
      LEDGER_VALIDITY_BRACKET = 10, clockNow = 1000, getState = SYNCED_STATE, getTxFee = 10,
      xdr_from_opaque = example_decode, xdr_to_opaque = example_encode,
      getContentsHash = (\<lambda>t. sum_list (mTransactions t) + mPreviousLedgerHash t),
      checkValid_txSet = (\<lambda>t. True),
      getFullHash = (\<lambda>tx. tx div 10), getSourceID = (\<lambda>tx. tx mod 10),
      getSeqNum = (\<lambda>tx. 1), loadAccount = (\<lambda>tx. True),
      sourceAccountSeqNum = (\<lambda>tx. 0), sourceAccountBalance = (\<lambda>tx. 1000),
      checkValid_tx = (\<lambda>tx. True)\<rparr>"

definition synced_herder :: Herder where
  "synced_herder =
     (Herder_new example_app)
       \<lparr>mLedgersToWaitToParticipate := 0,
        mLastClosedLedger := \<lparr>hash = 7, ledgerSeq = 10, closeTime_lh = 100\<rparr>\<rparr>"

definition example_ballot :: FBABallot where
  "example_ballot = \<lparr>counter = 6, value_fb = [3, 200, 10]\<rparr>"

text \<open>The clock at \<open>2 ^ 31\<close> seconds, one second after the last trigger.\<close>

definition late_app :: Application where
  "late_app = example_app\<lparr>clockNow := 2147483648\<rparr>"

definition late_herder :: Herder where
  "late_herder = synced_herder\<lparr>mLastTrigger := 2147483647\<rparr>"

text \<open>What the current TxSet fetcher holds under a hash.\<close>

definition cached :: "Herder \<Rightarrow> Hash \<Rightarrow> TxSetFrame option" where
  "cached s h = items (mTxSetFetcher s ! mCurrentTxSetFetcher s) h"

text \<open>
  A herder that still waits to participate and has the TxSet of hash 3 cached; a
  synced herder with that TxSet cached, transaction 11 in the oldest bucket and
  transaction 31 in the newest; a ballot whose base fee is 4.
\<close>

definition waiting_herder :: Herder where
  "waiting_herder =
     (Herder_new example_app)
       \<lparr>mTxSetFetcher :=
          [\<lparr>items = [3 \<mapsto> \<lparr>mTransactions = [11, 21], mPreviousLedgerHash = 7\<rparr>],
            fetching = {}\<rparr>,
           empty_fetcher]\<rparr>"

definition aged_herder :: Herder where
  "aged_herder =
     synced_herder
       \<lparr>mReceivedTransactions := [[31], [], [], [11]],
        mTxSetFetcher :=
          [\<lparr>items = [3 \<mapsto> \<lparr>mTransactions = [11, 21], mPreviousLedgerHash = 7\<rparr>],
            fetching = {}\<rparr>,
           empty_fetcher],
        mLastTrigger := 999\<rparr>"

text \<open>
  The aged herder with the frame 12 in the oldest bucket: the frames 11 and 12 have
  the same full hash.
\<close>

definition aliased_herder :: Herder where
  "aliased_herder = aged_herder\<lparr>mReceivedTransactions := [[31], [], [], [12]]\<rparr>"

definition low_fee_ballot :: FBABallot where
  "low_fee_ballot = \<lparr>counter = 6, value_fb = [3, 200, 4]\<rparr>"



fun verdict :: "Application \<Rightarrow> continuation \<Rightarrow> TxSetFrame \<Rightarrow> Herder \<Rightarrow> bool" where
  "verdict app (ValidateValue cb b slot node) T s =
     (if mLedgersToWaitToParticipate s = 0 then checkValid_txSet app T else True)"
| "verdict app (ValidateBallot cb b slot node) T s =
     (\<not> missing_received (mReceivedTransactions s ! 3) (mTransactions T))"









text \<open>
  A synced herder whose current fetcher (index 0) holds the TxSet of hash 3 and
  whose other fetcher holds a TxSet under hash 9, with transaction 41 in bucket 1;
  and that herder after the TxSet of hash 3 was externalized.
\<close>

definition full_herder :: Herder where
  "full_herder =
     aged_herder
       \<lparr>mReceivedTransactions := [[31], [41], [], [11]],
        mTxSetFetcher :=
          [\<lparr>items = [3 \<mapsto> \<lparr>mTransactions = [11, 21], mPreviousLedgerHash = 7\<rparr>],
            fetching = {4}\<rparr>,
           \<lparr>items = [9 \<mapsto> \<lparr>mTransactions = [2], mPreviousLedgerHash = 7\<rparr>],
            fetching = {}\<rparr>]\<rparr>"

definition externalized_herder :: Herder where
  "externalized_herder = projr (valueExternalized example_app 11 [3, 200, 10] full_herder)"

text \<open>
  The calls of \<^verbatim>\<open>prepareValue\<close> among the effects, oldest first, and what
  receiving TxSets, transactions and envelopes leaves alone: the last trigger, the
  last closed ledger, the local value, the ledgers to wait and the calls of
  \<^verbatim>\<open>prepareValue\<close>.
\<close>

fun prepared :: "event list \<Rightarrow> (uint64 \<times> Value \<times> bool) list" where
  "prepared [] = []"
| "prepared (PrepareValue slot v bump # es) = (slot, v, bump) # prepared es"
| "prepared (e # es) = prepared es"

definition frame_trigger :: "Herder \<Rightarrow> Herder \<Rightarrow> bool" where
  "frame_trigger s t \<longleftrightarrow>
     mLastTrigger t = mLastTrigger s \<and> mLastClosedLedger t = mLastClosedLedger s \<and>
     mLocalValue t = mLocalValue s \<and>
     mLedgersToWaitToParticipate t = mLedgersToWaitToParticipate s \<and>
     prepared (effects t) = prepared (effects s)"






text \<open>
  An envelope for slot 12; the aged herder (last closed ledger 10) after receiving
  it; that herder once ledger 11 is the last closed one; the same at the moment of
  the trigger, with the clock at 1000; and after \<^verbatim>\<open>triggerNextLedger\<close>.
\<close>

definition future_envelope :: FBAEnvelope where
  "future_envelope = \<lparr>slotIndex = 12, nodeID = 5, statement = 0\<rparr>"

definition buffered_herder :: Herder where
  "buffered_herder = projr (recvFBAEnvelope example_app future_envelope 1 aged_herder)"

definition next_ledger_herder :: Herder where
  "next_ledger_herder =
     buffered_herder\<lparr>mLastClosedLedger := \<lparr>hash = 8, ledgerSeq = 11, closeTime_lh = 200\<rparr>\<rparr>"

definition replayed_herder :: Herder where
  "replayed_herder = projr (triggerNextLedger example_app False next_ledger_herder)"

definition triggering_herder :: Herder where
  "triggering_herder = next_ledger_herder\<lparr>mLastTrigger := 1000\<rparr>"

section \<open>Lemmas on machine integers and the sum of timeouts\<close>

lemma scast_ucast_small:
  assumes "unat (w :: 64 word) < 2 ^ 31"
  shows "(scast (ucast w :: 32 word) :: 64 word) = w"
proof -
  have "int (unat w) < int (2 ^ 31)"
    using assms by (simp only: of_nat_less_iff)
  then have u: "uint w < 2 ^ 31" by simp
  have u0: "0 \<le> uint w" by simp
  have "uint (ucast w :: 32 word) = take_bit 32 (uint w)"
    by (simp add: unsigned_ucast_eq)
  also have "\<dots> = uint w"
    using u u0 by (intro take_bit_int_eq_self) auto
  finally have a: "uint (ucast w :: 32 word) = uint w" .
  have "sint (ucast w :: 32 word) = signed_take_bit 31 (uint (ucast w :: 32 word))"
    by (simp add: sint_uint)
  also have "\<dots> = signed_take_bit 31 (uint w)"
    by (simp only: a)
  also have "\<dots> = uint w"
  proof (rule signed_take_bit_int_eq_self)
    have "(- (2 ^ 31) :: int) \<le> 0" by simp
    then show "- (2 ^ 31) \<le> uint w" by (rule order_trans) (rule u0)
    show "uint w < 2 ^ 31" by (rule u)
  qed
  finally have b: "sint (ucast w :: 32 word) = uint w" .
  show ?thesis by (simp add: scast_eq b)
qed

lemma unat_add_of_nat:
  assumes "unat (a :: 64 word) + n < 2 ^ 64"
  shows "unat (a + of_nat n) = unat a + n"
proof -
  have n: "n < 2 ^ 64" using assms by simp
  have "unat (of_nat n :: 64 word) = n"
    using n by (simp add: unat_of_nat)
  moreover have "unat a + unat (of_nat n :: 64 word) < 2 ^ LENGTH(64)"
    using assms calculation by simp
  ultimately show ?thesis
    using unat_add_lem [of a "of_nat n"] by simp
qed

lemma Sigma_timeouts_mono: "j \<le> k \<Longrightarrow> Sigma_timeouts mx j \<le> Sigma_timeouts mx k"
  by (induction k) (auto simp: le_Suc_eq)

lemma Sigma_timeouts_bound: "Sigma_timeouts mx k < 2 ^ k"
  by (induction k) (auto simp: min_def)

lemma Sigma_30_6: "Sigma_timeouts 30 6 = 61"
  by (simp add: eval_nat_numeral)

text \<open>
  Up to 31 rounds every power of two fits an \<^verbatim>\<open>int\<close>, and the loop adds up the
  spec's sum.
\<close>

lemma sumTimeouts_loop_range:
  "i \<le> cnt \<Longrightarrow> cnt \<le> 31 \<Longrightarrow>
   sumTimeouts_loop mx cnt i acc
     = Inr (acc + of_nat (Sigma_timeouts mx cnt - Sigma_timeouts mx i))"
proof (induction "cnt - i" arbitrary: i acc)
  case 0
  then show ?case by (simp add: sumTimeouts_loop.simps)
next
  case (Suc d)
  then have lt: "i < cnt" and i31: "i < 31" by auto
  have mono: "Sigma_timeouts mx (Suc i) \<le> Sigma_timeouts mx cnt"
    using lt Sigma_timeouts_mono [of "Suc i" cnt mx] by simp
  have "sumTimeouts_loop mx cnt i acc
          = sumTimeouts_loop mx cnt (Suc i) (acc + of_nat (min mx (2 ^ i)))"
    using lt i31 by (subst sumTimeouts_loop.simps) (simp add: pow2_int_def)
  also have "\<dots> = Inr (acc + of_nat (min mx (2 ^ i))
                        + of_nat (Sigma_timeouts mx cnt - Sigma_timeouts mx (Suc i)))"
    using Suc by (intro Suc.hyps(1)) auto
  also have "\<dots> = Inr (acc + of_nat (Sigma_timeouts mx cnt - Sigma_timeouts mx i))"
    using mono by (simp add: algebra_simps)
  finally show ?case .
qed

text \<open>From 32 rounds on the loop meets a power of two that no \<^verbatim>\<open>int\<close> holds.\<close>

lemma sumTimeouts_loop_fault:
  "i \<le> 31 \<Longrightarrow> 31 < cnt \<Longrightarrow> sumTimeouts_loop mx cnt i acc = Inl FloatToIntOutOfRange"
proof (induction "31 - i" arbitrary: i acc)
  case 0
  then have "i = 31" by simp
  with 0 show ?case by (subst sumTimeouts_loop.simps) (simp add: pow2_int_def)
next
  case (Suc d)
  then have "i < 31" "i < cnt" by auto
  then have "sumTimeouts_loop mx cnt i acc
               = sumTimeouts_loop mx cnt (Suc i) (acc + of_nat (min mx (2 ^ i)))"
    by (subst sumTimeouts_loop.simps) (simp add: pow2_int_def)
  also have "\<dots> = Inl FloatToIntOutOfRange"
    using Suc by (intro Suc.hyps(1)) auto
  finally show ?case .
qed

lemma counter_too_fast_iff:
  assumes now: "unat (clockNow app) + MAX_TIME_SLIP_SECONDS app < 2 ^ 64"
    and last: "unat lastTrigger + sigma < 2 ^ 31"
  shows "counter_too_fast app lastTrigger (of_nat sigma) \<longleftrightarrow>
         unat (clockNow app) + MAX_TIME_SLIP_SECONDS app < unat lastTrigger + sigma"
proof -
  have "unat lastTrigger + sigma < 2 ^ 64"
    using last by (rule less_trans) simp
  then have r: "unat (lastTrigger + of_nat sigma) = unat lastTrigger + sigma"
    by (rule unat_add_of_nat)
  then have "unat (lastTrigger + of_nat sigma) < 2 ^ 31"
    using last by simp
  then have c: "(scast (ucast (lastTrigger + of_nat sigma) :: 32 word) :: 64 word)
                 = lastTrigger + of_nat sigma"
    by (rule scast_ucast_small)
  have l: "unat (clockNow app + of_nat (MAX_TIME_SLIP_SECONDS app))
            = unat (clockNow app) + MAX_TIME_SLIP_SECONDS app"
    using now by (rule unat_add_of_nat)
  show ?thesis
    unfolding counter_too_fast_def c word_less_nat_alt l r ..
qed

section \<open>The participation gate\<close>

text \<open>
  What \<^verbatim>\<open>ledgerClosed\<close> does: it returns at once. A ledger close leaves the
  herder, and with it the number of ledgers to wait, as it was, whatever the state
  of the application (SYNCED or not) and whatever the header; after any run of
  ledger closes on a newly constructed herder the counter is still 3.
\<close>

lemma ledgerClosed_keeps_counter:
  "ledgerClosed app ledger s = s
   \<and> mLedgersToWaitToParticipate (ledgerClosed app ledger s) = mLedgersToWaitToParticipate s
   \<and> mLedgersToWaitToParticipate (ledgerCloses closes (Herder_new app0)) = 3"
proof -
  have run: "ledgerCloses cs t = t" for cs t
    by (induction cs arbitrary: t) (auto simp: ledgerClosed_def)
  show ?thesis
    by (simp add: run ledgerClosed_def Herder_new_def)
qed

text \<open>
  C1 on the code: the application is SYNCED and a newly constructed herder has 3
  ledgers to wait, yet after one ledger close the counter is not 2, and after three
  ledger closes it is not 0: \<^verbatim>\<open>ledgerClosed\<close> returns before the statements that
  would count the close.
\<close>

theorem ledgerClosed_ignores_synced_close:
  "getState example_app = SYNCED_STATE
   \<and> mLedgersToWaitToParticipate (Herder_new example_app) = 3
   \<and> mLedgersToWaitToParticipate
        (ledgerClosed example_app \<lparr>hash = 1, ledgerSeq = 1, closeTime_lh = 1\<rparr>
           (Herder_new example_app)) \<noteq> 2
   \<and> mLedgersToWaitToParticipate
        (ledgerCloses
           [(example_app, \<lparr>hash = 1, ledgerSeq = 1, closeTime_lh = 1\<rparr>),
            (example_app, \<lparr>hash = 2, ledgerSeq = 2, closeTime_lh = 2\<rparr>),
            (example_app, \<lparr>hash = 3, ledgerSeq = 3, closeTime_lh = 3\<rparr>)]
           (Herder_new example_app)) \<noteq> 0"
  by (simp add: example_app_def ledgerClosed_def Herder_new_def)

section \<open>The counter-exhaustion guard of validateBallot\<close>

text \<open>
  The guard within the range of the conversions: for a ballot that decodes, with a
  counter of at most 31 (so that every \<^verbatim>\<open>(int)pow(2.0, i)\<close> is defined), with
  \<open>lastTriggerTime + \<Sigma>(counter)\<close> below \<open>2 ^ 31\<close> (so that the cast to
  \<^verbatim>\<open>int\<close> keeps it) and \<open>now + MAX_TIME_SLIP_SECONDS\<close> below \<open>2 ^ 64\<close>: the loop
  computes \<open>\<Sigma>(counter)\<close>, the guard fires exactly when
  \<open>now + MAX_TIME_SLIP_SECONDS < lastTriggerTime + \<Sigma>(counter)\<close> (so it lets the
  exact boundary pass and rejects one second less), and whenever that inequality
  holds \<^verbatim>\<open>validateBallot\<close> invokes \<open>cb(false)\<close>.
\<close>

lemma counter_guard_in_range:
  assumes dec: "xdr_from_opaque app (value_fb ballot) = Some b"
    and cnt: "unat (counter ballot) \<le> 31"
    and now: "unat (clockNow app) + MAX_TIME_SLIP_SECONDS app < 2 ^ 64"
    and last: "unat (mLastTrigger s)
                 + Sigma_timeouts (MAX_FBA_TIMEOUT_SECONDS app) (unat (counter ballot)) < 2 ^ 31"
  shows "sumTimeouts_loop (MAX_FBA_TIMEOUT_SECONDS app) (unat (counter ballot)) 0 0
           = Inr (of_nat (Sigma_timeouts (MAX_FBA_TIMEOUT_SECONDS app) (unat (counter ballot))))
       \<and> (counter_too_fast app (mLastTrigger s)
             (of_nat (Sigma_timeouts (MAX_FBA_TIMEOUT_SECONDS app) (unat (counter ballot))))
            \<longleftrightarrow> unat (clockNow app) + MAX_TIME_SLIP_SECONDS app
                  < unat (mLastTrigger s)
                    + Sigma_timeouts (MAX_FBA_TIMEOUT_SECONDS app) (unat (counter ballot)))
       \<and> (unat (clockNow app) + MAX_TIME_SLIP_SECONDS app
             < unat (mLastTrigger s)
               + Sigma_timeouts (MAX_FBA_TIMEOUT_SECONDS app) (unat (counter ballot))
            \<longrightarrow> validateBallot app slot node ballot cb s = Inr (emit (Callback cb False) s))"
proof -
  let ?sigma = "Sigma_timeouts (MAX_FBA_TIMEOUT_SECONDS app) (unat (counter ballot))"
  have loop: "sumTimeouts_loop (MAX_FBA_TIMEOUT_SECONDS app) (unat (counter ballot)) 0 0
                = Inr (of_nat ?sigma)"
    using sumTimeouts_loop_range [of 0 "unat (counter ballot)" "MAX_FBA_TIMEOUT_SECONDS app" 0] cnt
    by simp
  have guard: "counter_too_fast app (mLastTrigger s) (of_nat ?sigma)
                 \<longleftrightarrow> unat (clockNow app) + MAX_TIME_SLIP_SECONDS app < unat (mLastTrigger s) + ?sigma"
    using now last by (rule counter_too_fast_iff)
  have "validateBallot app slot node ballot cb s = Inr (emit (Callback cb False) s)"
    if "unat (clockNow app) + MAX_TIME_SLIP_SECONDS app < unat (mLastTrigger s) + ?sigma"
    using that guard by (simp add: validateBallot_def dec loop)
  with loop guard show ?thesis by blast
qed

text \<open>
  The lemma at a ballot of counter 6 with the clock at 1000, the last trigger at
  1000, a slip of 60 and a timeout cap of 30: \<open>\<Sigma>(6) = 61\<close>, one second more than
  the slip, and the ballot is rejected.
\<close>

lemma counter_guard_in_range_example:
  "xdr_from_opaque example_app (value_fb example_ballot)
     = Some \<lparr>value_sb = \<lparr>txSetHash = 3, closeTime = 200, baseFee = 10\<rparr>\<rparr>
   \<and> unat (counter example_ballot) \<le> 31
   \<and> unat (clockNow example_app) + MAX_TIME_SLIP_SECONDS example_app < 2 ^ 64
   \<and> unat (mLastTrigger synced_herder)
        + Sigma_timeouts (MAX_FBA_TIMEOUT_SECONDS example_app) (unat (counter example_ballot)) < 2 ^ 31
   \<and> unat (clockNow example_app) + MAX_TIME_SLIP_SECONDS example_app
        < unat (mLastTrigger synced_herder)
          + Sigma_timeouts (MAX_FBA_TIMEOUT_SECONDS example_app) (unat (counter example_ballot))
   \<and> counter_too_fast example_app (mLastTrigger synced_herder) 61
   \<and> validateBallot example_app 11 5 example_ballot 1 synced_herder
        = Inr (emit (Callback 1 False) synced_herder)"
  using counter_guard_in_range [of example_app example_ballot
      "\<lparr>value_sb = \<lparr>txSetHash = 3, closeTime = 200, baseFee = 10\<rparr>\<rparr>" synced_herder 11 5 1]
  by (simp add: example_app_def example_ballot_def synced_herder_def Herder_new_def Sigma_30_6)

text \<open>
  C3 on the code: with the clock at \<open>2147483648\<close> (\<open>2 ^ 31\<close> seconds), the last
  trigger one second before, a slip of 60, a timeout cap of 30 and a ballot of
  counter 6, \<open>now + MAX_TIME_SLIP_SECONDS\<close> equals \<open>lastTriggerTime + \<Sigma>(6)\<close>, the
  exact boundary, and the close time is not too far; yet the cast to \<^verbatim>\<open>int\<close>
  turns the right side negative, the comparison reads it as a huge unsigned number,
  and the ballot is rejected.
\<close>

theorem counter_guard_rejects_boundary:
  "xdr_from_opaque late_app (value_fb example_ballot)
     = Some \<lparr>value_sb = \<lparr>txSetHash = 3, closeTime = 200, baseFee = 10\<rparr>\<rparr>
   \<and> unat (clockNow late_app) + MAX_TIME_SLIP_SECONDS late_app
        = unat (mLastTrigger late_herder)
          + Sigma_timeouts (MAX_FBA_TIMEOUT_SECONDS late_app) (unat (counter example_ballot))
   \<and> \<not> closeTime_too_far late_app \<lparr>value_sb = \<lparr>txSetHash = 3, closeTime = 200, baseFee = 10\<rparr>\<rparr>
   \<and> sumTimeouts_loop (MAX_FBA_TIMEOUT_SECONDS late_app) (unat (counter example_ballot)) 0 0 = Inr 61
   \<and> counter_too_fast late_app (mLastTrigger late_herder) 61
   \<and> validateBallot late_app 11 5 example_ballot 1 late_herder
        = Inr (emit (Callback 1 False) late_herder)"
proof -
  have loop: "sumTimeouts_loop 30 6 0 0 = Inr 61"
    using sumTimeouts_loop_range [of 0 6 30 0] by (simp add: Sigma_30_6)
  show ?thesis
    by (simp add: late_app_def late_herder_def example_app_def example_ballot_def synced_herder_def
        Herder_new_def Sigma_30_6 loop closeTime_too_far_def counter_too_fast_def validateBallot_def)
qed

section \<open>Lemmas on fetching and on the received transactions\<close>

lemma fetchTxSet_cached:
  "cached s h = Some t \<Longrightarrow> fetchTxSet h ask s = (Some t, s)"
  by (simp add: fetchTxSet_def fetchItem_def cached_def Let_def)

lemma fetchTxSet_absent:
  "cached s h = None \<Longrightarrow>
   fetchTxSet h True s =
     (None, s\<lparr>mTxSetFetcher := (mTxSetFetcher s)[mCurrentTxSetFetcher s :=
               (mTxSetFetcher s ! mCurrentTxSetFetcher s)
                 \<lparr>fetching := insert h (fetching (mTxSetFetcher s ! mCurrentTxSetFetcher s))\<rparr>]\<rparr>)"
  by (simp add: fetchTxSet_def fetchItem_def cached_def Let_def)

lemma fetchTxSet_absent_quiet:
  "cached s h = None \<Longrightarrow> fetchTxSet h False s = (None, s)"
  by (simp add: fetchTxSet_def fetchItem_def cached_def Let_def)

lemma missing_received_iff:
  "missing_received bucket txs \<longleftrightarrow> \<not> (\<forall>tx\<in>set bucket. tx \<in> set txs)"
  by (induction bucket) auto

lemma wf_aged_herder: "wf_herder aged_herder"
  by (simp add: wf_herder_def aged_herder_def synced_herder_def Herder_new_def)

lemma sumTimeouts_loop_30_6: "sumTimeouts_loop 30 6 0 0 = Inr 61"
  using sumTimeouts_loop_range [of 0 6 30 0] by (simp add: Sigma_30_6)

lemma scan_list_duplicate:
  "\<exists>old\<in>set list. getFullHash app old = getFullHash app tx \<Longrightarrow>
   scan_list app tx list n = None"
  by (induction list arbitrary: n) auto

lemma scan_received_duplicate:
  "\<exists>old\<in>set (concat buckets). getFullHash app old = getFullHash app tx \<Longrightarrow>
   scan_received app tx buckets n = None"
proof (induction buckets arbitrary: n)
  case Nil
  then show ?case by simp
next
  case (Cons list others)
  show ?case
  proof (cases "\<exists>old\<in>set list. getFullHash app old = getFullHash app tx")
    case True
    then show ?thesis by (simp add: scan_list_duplicate)
  next
    case False
    with Cons.prems have "\<exists>old\<in>set (concat others). getFullHash app old = getFullHash app tx"
      by auto
    then show ?thesis
      by (simp add: Cons.IH split: option.splits)
  qed
qed

section \<open>validateValue: decoding and the checks against the last closed ledger\<close>

text \<open>
  C4: \<^verbatim>\<open>validateValue\<close> invokes \<open>cb(false)\<close> whenever the value fails to decode;
  when no ledger is left to wait for it invokes \<open>cb(false)\<close> whenever the slot
  index is not the last closed sequence number plus one (in the 64 bits of the
  source) or the close time is not after that of the last closed ledger; while
  ledgers are left to wait these checks (and the check of the TxSet) are skipped:
  whatever the slot index and the close time, a decoded value gets \<open>cb(true)\<close> when
  its TxSet is cached, and is deferred under the hash of its TxSet when it is not.
\<close>

theorem validateValue_local_checks:
  "(xdr_from_opaque app v = None \<longrightarrow>
      validateValue app slot node v cb s = emit (Callback cb False) s)
   \<and> (xdr_from_opaque app v = Some b \<and> mLedgersToWaitToParticipate s = 0
        \<and> (slot \<noteq> ledgerSeq (mLastClosedLedger s) + 1
            \<or> closeTime (value_sb b) \<le> closeTime_lh (mLastClosedLedger s)) \<longrightarrow>
      validateValue app slot node v cb s = emit (Callback cb False) s)
   \<and> (xdr_from_opaque app v = Some b \<and> 0 < mLedgersToWaitToParticipate s
        \<and> cached s (txSetHash (value_sb b)) = Some t \<longrightarrow>
      validateValue app slot node v cb s = emit (Callback cb True) s)
   \<and> (xdr_from_opaque app v = Some b \<and> 0 < mLedgersToWaitToParticipate s
        \<and> cached s (txSetHash (value_sb b)) = None \<longrightarrow>
      validateValue app slot node v cb s
        = push_fetch (txSetHash (value_sb b)) (ValidateValue cb b slot node)
            (snd (fetchTxSet (txSetHash (value_sb b)) True s)))"
proof -
  have dec_fail: "validateValue app slot node v cb s = emit (Callback cb False) s"
    if "xdr_from_opaque app v = None"
    using that by (simp add: validateValue_def)
  have local_fail: "validateValue app slot node v cb s = emit (Callback cb False) s"
    if "xdr_from_opaque app v = Some b" "mLedgersToWaitToParticipate s = 0"
       "slot \<noteq> ledgerSeq (mLastClosedLedger s) + 1
        \<or> closeTime (value_sb b) \<le> closeTime_lh (mLastClosedLedger s)"
    using that by (auto simp: validateValue_def)
  have skipped_hit: "validateValue app slot node v cb s = emit (Callback cb True) s"
    if "xdr_from_opaque app v = Some b" "0 < mLedgersToWaitToParticipate s"
       "cached s (txSetHash (value_sb b)) = Some t"
    using that by (simp add: validateValue_def fetchTxSet_cached)
  have skipped_miss: "validateValue app slot node v cb s
        = push_fetch (txSetHash (value_sb b)) (ValidateValue cb b slot node)
            (snd (fetchTxSet (txSetHash (value_sb b)) True s))"
    if "xdr_from_opaque app v = Some b" "0 < mLedgersToWaitToParticipate s"
       "cached s (txSetHash (value_sb b)) = None"
    using that by (simp add: validateValue_def fetchTxSet_absent)
  from dec_fail local_fail skipped_hit skipped_miss show ?thesis by blast
qed

text \<open>
  The theorem on an empty value, on slot 12 after ledger 10, and on a herder that
  still waits, with the TxSet cached (hash 3) and not cached (hash 4).
\<close>

theorem validateValue_local_checks_witness:
  "xdr_from_opaque example_app [] = None
   \<and> validateValue example_app 11 5 [] 1 synced_herder = emit (Callback 1 False) synced_herder
   \<and> xdr_from_opaque example_app [3, 200, 10]
        = Some \<lparr>value_sb = \<lparr>txSetHash = 3, closeTime = 200, baseFee = 10\<rparr>\<rparr>
   \<and> mLedgersToWaitToParticipate synced_herder = 0
   \<and> 12 \<noteq> ledgerSeq (mLastClosedLedger synced_herder) + 1
   \<and> validateValue example_app 12 5 [3, 200, 10] 1 synced_herder
        = emit (Callback 1 False) synced_herder
   \<and> 0 < mLedgersToWaitToParticipate waiting_herder
   \<and> cached waiting_herder 3 = Some \<lparr>mTransactions = [11, 21], mPreviousLedgerHash = 7\<rparr>
   \<and> validateValue example_app 12 5 [3, 200, 10] 1 waiting_herder
        = emit (Callback 1 True) waiting_herder
   \<and> cached waiting_herder 4 = None
   \<and> validateValue example_app 12 5 [4, 200, 10] 1 waiting_herder
        = push_fetch 4
            (ValidateValue 1 \<lparr>value_sb = \<lparr>txSetHash = 4, closeTime = 200, baseFee = 10\<rparr>\<rparr> 12 5)
            (snd (fetchTxSet 4 True waiting_herder))"
  using validateValue_local_checks [where app = example_app and v = "[]" and slot = 11
      and node = 5 and cb = 1 and s = synced_herder]
    validateValue_local_checks [where app = example_app and v = "[3, 200, 10]" and slot = 12
      and node = 5 and cb = 1 and s = synced_herder
      and b = "\<lparr>value_sb = \<lparr>txSetHash = 3, closeTime = 200, baseFee = 10\<rparr>\<rparr>"]
    validateValue_local_checks [where app = example_app and v = "[3, 200, 10]" and slot = 12
      and node = 5 and cb = 1 and s = waiting_herder
      and b = "\<lparr>value_sb = \<lparr>txSetHash = 3, closeTime = 200, baseFee = 10\<rparr>\<rparr>"
      and t = "\<lparr>mTransactions = [11, 21], mPreviousLedgerHash = 7\<rparr>"]
    validateValue_local_checks [where app = example_app and v = "[4, 200, 10]" and slot = 12
      and node = 5 and cb = 1 and s = waiting_herder
      and b = "\<lparr>value_sb = \<lparr>txSetHash = 4, closeTime = 200, baseFee = 10\<rparr>\<rparr>"]
  by (simp add: example_app_def synced_herder_def waiting_herder_def Herder_new_def cached_def)


section \<open>validateBallot: the oldest bucket\<close>

text \<open>
  What the check of the oldest bucket compares: for a ballot that decodes and passes
  the local checks of \<^verbatim>\<open>validateBallot\<close> (close time, counter, base fee) and
  whose TxSet \<open>T\<close> the current fetcher holds, the callback is invoked with true if
  and only if every transaction frame of the oldest bucket (the last of the four)
  is one of the frames of \<open>T\<close>, and with false if one is not. The buckets and the
  TxSet hold shared pointers and \<^verbatim>\<open>std::find\<close> compares the pointers. The closure
  that runs when \<open>T\<close> arrives later gives the same verdict on the state it runs in.
\<close>

lemma validateBallot_oldest_bucket:
  assumes wf: "wf_herder s"
    and dec: "xdr_from_opaque app (value_fb ballot) = Some b"
    and time: "\<not> closeTime_too_far app b"
    and loop: "sumTimeouts_loop (MAX_FBA_TIMEOUT_SECONDS app) (unat (counter ballot)) 0 0
                 = Inr sumTimeouts"
    and guard: "\<not> counter_too_fast app (mLastTrigger s) sumTimeouts"
    and fee: "\<not> baseFee_out_of_range app b"
    and avail: "cached s (txSetHash (value_sb b)) = Some T"
  shows "validateBallot app slot node ballot cb s
           = Inr (emit (Callback cb
                    (\<forall>tx\<in>set (mReceivedTransactions s ! 3). tx \<in> set (mTransactions T))) s)
       \<and> validate app (ValidateBallot cb b slot node) T s
           = emit (Callback cb
               (\<forall>tx\<in>set (mReceivedTransactions s ! 3). tx \<in> set (mTransactions T))) s"
proof -
  have oldest: "length (mReceivedTransactions s) = 4"
    using wf by (simp add: wf_herder_def)
  have run: "validate app (ValidateBallot cb b slot node) T s
           = emit (Callback cb
               (\<forall>tx\<in>set (mReceivedTransactions s ! 3). tx \<in> set (mTransactions T))) s"
  proof -
    have "validate app (ValidateBallot cb b slot node) T s
            = emit (Callback cb
                (\<not> missing_received (mReceivedTransactions s ! 3) (mTransactions T))) s"
      by (simp add: oldest)
    then show ?thesis
      by (simp only: missing_received_iff not_not)
  qed
  have "validateBallot app slot node ballot cb s
          = Inr (validate app (ValidateBallot cb b slot node) T s)"
    using time guard fee
    by (simp add: validateBallot_def dec loop fetchTxSet_cached [OF avail])
  with run show ?thesis by simp
qed

text \<open>
  The lemma on the herder whose oldest bucket holds transaction 11, with the
  cached TxSet of transactions 11 and 21.
\<close>

lemma validateBallot_oldest_bucket_example:
  "wf_herder aged_herder
   \<and> xdr_from_opaque example_app (value_fb example_ballot)
        = Some \<lparr>value_sb = \<lparr>txSetHash = 3, closeTime = 200, baseFee = 10\<rparr>\<rparr>
   \<and> \<not> closeTime_too_far example_app \<lparr>value_sb = \<lparr>txSetHash = 3, closeTime = 200, baseFee = 10\<rparr>\<rparr>
   \<and> sumTimeouts_loop (MAX_FBA_TIMEOUT_SECONDS example_app) (unat (counter example_ballot)) 0 0
        = Inr 61
   \<and> \<not> counter_too_fast example_app (mLastTrigger aged_herder) 61
   \<and> \<not> baseFee_out_of_range example_app \<lparr>value_sb = \<lparr>txSetHash = 3, closeTime = 200, baseFee = 10\<rparr>\<rparr>
   \<and> cached aged_herder 3 = Some \<lparr>mTransactions = [11, 21], mPreviousLedgerHash = 7\<rparr>
   \<and> mReceivedTransactions aged_herder ! 3 = [11]
   \<and> validateBallot example_app 11 5 example_ballot 1 aged_herder
        = Inr (emit (Callback 1 True) aged_herder)"
proof -
  have hyps: "\<not> closeTime_too_far example_app \<lparr>value_sb = \<lparr>txSetHash = 3, closeTime = 200, baseFee = 10\<rparr>\<rparr>"
    "\<not> counter_too_fast example_app (mLastTrigger aged_herder) 61"
    "\<not> baseFee_out_of_range example_app \<lparr>value_sb = \<lparr>txSetHash = 3, closeTime = 200, baseFee = 10\<rparr>\<rparr>"
    "cached aged_herder 3 = Some \<lparr>mTransactions = [11, 21], mPreviousLedgerHash = 7\<rparr>"
    by (simp_all add: closeTime_too_far_def counter_too_fast_def baseFee_out_of_range_def cached_def
        example_app_def aged_herder_def synced_herder_def Herder_new_def)
  show ?thesis
    using validateBallot_oldest_bucket [where s = aged_herder and app = example_app
        and ballot = example_ballot and sumTimeouts = 61 and slot = 11 and node = 5 and cb = 1
        and b = "\<lparr>value_sb = \<lparr>txSetHash = 3, closeTime = 200, baseFee = 10\<rparr>\<rparr>"
        and T = "\<lparr>mTransactions = [11, 21], mPreviousLedgerHash = 7\<rparr>"]
      wf_aged_herder hyps
    by (simp add: sumTimeouts_loop_30_6 example_app_def example_ballot_def)
       (simp add: aged_herder_def)
qed

text \<open>
  C5 on the code: the oldest bucket holds the frame at address 12, the cached TxSet
  of the ballot holds the frames 11 and 21, and the frames 11 and 12 carry the same
  transaction (the same full hash), so every transaction of the oldest bucket is
  contained in the TxSet. The ballot decodes and passes the local checks, yet the
  callback is invoked with false: the frame 12 itself is not among the frames of
  the TxSet.
\<close>

theorem validateBallot_rejects_same_transaction:
  "mReceivedTransactions aliased_herder ! 3 = [12]
   \<and> cached aliased_herder 3 = Some \<lparr>mTransactions = [11, 21], mPreviousLedgerHash = 7\<rparr>
   \<and> getFullHash example_app 12 = getFullHash example_app 11
   \<and> xdr_from_opaque example_app (value_fb example_ballot)
        = Some \<lparr>value_sb = \<lparr>txSetHash = 3, closeTime = 200, baseFee = 10\<rparr>\<rparr>
   \<and> \<not> closeTime_too_far example_app \<lparr>value_sb = \<lparr>txSetHash = 3, closeTime = 200, baseFee = 10\<rparr>\<rparr>
   \<and> sumTimeouts_loop (MAX_FBA_TIMEOUT_SECONDS example_app) (unat (counter example_ballot)) 0 0
        = Inr 61
   \<and> \<not> counter_too_fast example_app (mLastTrigger aliased_herder) 61
   \<and> \<not> baseFee_out_of_range example_app \<lparr>value_sb = \<lparr>txSetHash = 3, closeTime = 200, baseFee = 10\<rparr>\<rparr>
   \<and> validateBallot example_app 11 5 example_ballot 1 aliased_herder
        = Inr (emit (Callback 1 False) aliased_herder)"
proof -
  have state: "mReceivedTransactions aliased_herder ! 3 = [12]"
    "cached aliased_herder 3 = Some \<lparr>mTransactions = [11, 21], mPreviousLedgerHash = 7\<rparr>"
    "getFullHash example_app 12 = getFullHash example_app 11"
    "xdr_from_opaque example_app (value_fb example_ballot)
        = Some \<lparr>value_sb = \<lparr>txSetHash = 3, closeTime = 200, baseFee = 10\<rparr>\<rparr>"
    by (simp_all add: cached_def aliased_herder_def aged_herder_def synced_herder_def
        Herder_new_def example_app_def example_ballot_def)
  have loop: "sumTimeouts_loop (MAX_FBA_TIMEOUT_SECONDS example_app)
                (unat (counter example_ballot)) 0 0 = Inr 61"
    by (simp add: example_app_def example_ballot_def sumTimeouts_loop_30_6)
  have checks: "\<not> closeTime_too_far example_app \<lparr>value_sb = \<lparr>txSetHash = 3, closeTime = 200, baseFee = 10\<rparr>\<rparr>"
    "\<not> counter_too_fast example_app (mLastTrigger aliased_herder) 61"
    "\<not> baseFee_out_of_range example_app \<lparr>value_sb = \<lparr>txSetHash = 3, closeTime = 200, baseFee = 10\<rparr>\<rparr>"
    by (simp_all add: closeTime_too_far_def counter_too_fast_def baseFee_out_of_range_def
        aliased_herder_def aged_herder_def synced_herder_def Herder_new_def example_app_def)
  have len: "length (mReceivedTransactions aliased_herder) = 4"
    by (simp add: aliased_herder_def)
  have run: "validateBallot example_app 11 5 example_ballot 1 aliased_herder
        = Inr (emit (Callback 1 False) aliased_herder)"
    using checks
    by (simp add: validateBallot_def state(4) loop fetchTxSet_cached [OF state(2)] len state(1))
  from state loop checks run show ?thesis by simp
qed

section \<open>validateBallot: the base fee\<close>

lemma baseFee_out_of_range_iff:
  "baseFee_out_of_range app b \<longleftrightarrow>
     real (unat (baseFee (value_sb b)))
       \<notin> {0.5 * real (DESIRED_BASE_FEE app) .. 2 * real (DESIRED_BASE_FEE app)}"
proof -
  let ?f = "unat (baseFee (value_sb b))" and ?d = "DESIRED_BASE_FEE app"
  have "(?d * 2 < ?f) = (2 * real ?d < real ?f)"
    by (metis of_nat_less_iff of_nat_mult of_nat_numeral mult.commute)
  then show ?thesis
    by (auto simp: baseFee_out_of_range_def)
qed

lemma ceiling_half_in_range:
  assumes "int f = \<lceil>0.5 * real d\<rceil>"
  shows "real f \<in> {0.5 * real d .. 2 * real d}"
proof -
  have "real f = of_int \<lceil>0.5 * real d\<rceil>"
    using assms by (metis of_int_of_nat_eq)
  moreover have "0.5 * real d \<le> of_int \<lceil>0.5 * real d\<rceil>" by (rule le_of_int_ceiling)
  moreover have "\<lceil>0.5 * real d\<rceil> \<le> 2 * int d"
    by (rule ceiling_le) simp
  then have "real_of_int \<lceil>0.5 * real d\<rceil> \<le> 2 * real d"
    by (metis of_int_le_iff of_int_mult of_int_numeral of_int_of_nat_eq)
  ultimately show ?thesis by simp
qed

lemma below_floor_half_out_of_range:
  assumes "int f = \<lfloor>0.5 * real d\<rfloor> - 1"
  shows "real f \<notin> {0.5 * real d .. 2 * real d}"
proof -
  have "real f = of_int (\<lfloor>0.5 * real d\<rfloor> - 1)"
    using assms by (metis of_int_of_nat_eq)
  moreover have "of_int \<lfloor>0.5 * real d\<rfloor> \<le> 0.5 * real d" by (rule of_int_floor_le)
  ultimately have "real f < 0.5 * real d" by simp
  then show ?thesis by simp
qed

text \<open>
  C8: for a ballot that decodes and gets past the two checks before the base-fee
  check (close time, ballot counter), \<^verbatim>\<open>validateBallot\<close> answers \<open>cb(false)\<close> at
  the base-fee check when the base fee lies outside the interval from half the
  desired base fee to twice the desired base fee, and otherwise goes on to the
  fetch of the TxSet, where the answer is the one of the closure on the cached
  TxSet or the validation is deferred. So a base fee equal to the ceiling of half
  the desired fee passes the check, and one equal to the floor of half the desired
  fee minus one fails it.
\<close>

theorem baseFee_check_interval:
  assumes dec: "xdr_from_opaque app (value_fb ballot) = Some b"
    and ct: "\<not> closeTime_too_far app b"
    and sum: "sumTimeouts_loop (MAX_FBA_TIMEOUT_SECONDS app) (unat (counter ballot)) 0 0
                = Inr sumTimeouts"
    and cnt: "\<not> counter_too_fast app (mLastTrigger s) sumTimeouts"
  shows "(real (unat (baseFee (value_sb b)))
            \<notin> {0.5 * real (DESIRED_BASE_FEE app) .. 2 * real (DESIRED_BASE_FEE app)}
          \<longrightarrow> validateBallot app slot node ballot cb s = Inr (emit (Callback cb False) s))
       \<and> (real (unat (baseFee (value_sb b)))
            \<in> {0.5 * real (DESIRED_BASE_FEE app) .. 2 * real (DESIRED_BASE_FEE app)}
          \<longrightarrow> validateBallot app slot node ballot cb s
                = (let (r, s1) = fetchTxSet (txSetHash (value_sb b)) True s
                   in case r of
                        None \<Rightarrow>
                          Inr (push_fetch (txSetHash (value_sb b)) (ValidateBallot cb b slot node) s1)
                      | Some txSet \<Rightarrow>
                          Inr (validate app (ValidateBallot cb b slot node) txSet s1)))
       \<and> (int (unat (baseFee (value_sb b))) = \<lceil>0.5 * real (DESIRED_BASE_FEE app)\<rceil>
          \<longrightarrow> validateBallot app slot node ballot cb s
                = (let (r, s1) = fetchTxSet (txSetHash (value_sb b)) True s
                   in case r of
                        None \<Rightarrow>
                          Inr (push_fetch (txSetHash (value_sb b)) (ValidateBallot cb b slot node) s1)
                      | Some txSet \<Rightarrow>
                          Inr (validate app (ValidateBallot cb b slot node) txSet s1)))
       \<and> (int (unat (baseFee (value_sb b))) = \<lfloor>0.5 * real (DESIRED_BASE_FEE app)\<rfloor> - 1
          \<longrightarrow> validateBallot app slot node ballot cb s = Inr (emit (Callback cb False) s))
       \<and> (baseFee_out_of_range app b \<longleftrightarrow>
            real (unat (baseFee (value_sb b)))
              \<notin> {0.5 * real (DESIRED_BASE_FEE app) .. 2 * real (DESIRED_BASE_FEE app)})"
proof -
  let ?f = "unat (baseFee (value_sb b))" and ?d = "DESIRED_BASE_FEE app"
  let ?next = "let (r, s1) = fetchTxSet (txSetHash (value_sb b)) True s
               in case r of
                    None \<Rightarrow>
                      Inr (push_fetch (txSetHash (value_sb b)) (ValidateBallot cb b slot node) s1)
                  | Some txSet \<Rightarrow>
                      Inr (validate app (ValidateBallot cb b slot node) txSet s1)"
  have reject: "validateBallot app slot node ballot cb s = Inr (emit (Callback cb False) s)"
    if "real ?f \<notin> {0.5 * real ?d .. 2 * real ?d}"
  proof -
    from that have "baseFee_out_of_range app b"
      using baseFee_out_of_range_iff by blast
    with dec ct sum cnt show ?thesis
      by (simp add: validateBallot_def)
  qed
  have pass: "validateBallot app slot node ballot cb s = ?next"
    if "real ?f \<in> {0.5 * real ?d .. 2 * real ?d}"
  proof -
    from that have "\<not> baseFee_out_of_range app b"
      using baseFee_out_of_range_iff by blast
    with dec ct sum cnt show ?thesis
      by (simp add: validateBallot_def)
  qed
  have ceil: "validateBallot app slot node ballot cb s = ?next"
    if "int ?f = \<lceil>0.5 * real ?d\<rceil>"
    using pass ceiling_half_in_range [OF that] by simp
  have floor: "validateBallot app slot node ballot cb s = Inr (emit (Callback cb False) s)"
    if "int ?f = \<lfloor>0.5 * real ?d\<rfloor> - 1"
    using reject below_floor_half_out_of_range [OF that] by simp
  from reject pass ceil floor baseFee_out_of_range_iff show ?thesis
    by blast
qed

text \<open>
  The theorem at a desired base fee of 10, on the aged herder, whose current
  fetcher holds the TxSet of hash 3 with transaction 11 of the oldest bucket: a
  ballot of base fee 5 passes the check and gets \<open>cb(true)\<close>, one of base fee 4
  gets \<open>cb(false)\<close>.
\<close>

theorem baseFee_check_interval_witness:
  "xdr_from_opaque example_app (value_fb \<lparr>counter = 6, value_fb = [3, 200, 5]\<rparr>)
     = Some \<lparr>value_sb = \<lparr>txSetHash = 3, closeTime = 200, baseFee = 5\<rparr>\<rparr>
   \<and> xdr_from_opaque example_app (value_fb low_fee_ballot)
        = Some \<lparr>value_sb = \<lparr>txSetHash = 3, closeTime = 200, baseFee = 4\<rparr>\<rparr>
   \<and> \<not> closeTime_too_far example_app \<lparr>value_sb = \<lparr>txSetHash = 3, closeTime = 200, baseFee = 5\<rparr>\<rparr>
   \<and> \<not> closeTime_too_far example_app \<lparr>value_sb = \<lparr>txSetHash = 3, closeTime = 200, baseFee = 4\<rparr>\<rparr>
   \<and> sumTimeouts_loop (MAX_FBA_TIMEOUT_SECONDS example_app) (unat (counter low_fee_ballot)) 0 0
        = Inr 61
   \<and> \<not> counter_too_fast example_app (mLastTrigger aged_herder) 61
   \<and> int (unat (5 :: uint32)) = \<lceil>0.5 * real (DESIRED_BASE_FEE example_app)\<rceil>
   \<and> real (unat (5 :: uint32))
        \<in> {0.5 * real (DESIRED_BASE_FEE example_app) .. 2 * real (DESIRED_BASE_FEE example_app)}
   \<and> validateBallot example_app 11 5 \<lparr>counter = 6, value_fb = [3, 200, 5]\<rparr> 1 aged_herder
        = Inr (emit (Callback 1 True) aged_herder)
   \<and> int (unat (4 :: uint32)) = \<lfloor>0.5 * real (DESIRED_BASE_FEE example_app)\<rfloor> - 1
   \<and> real (unat (4 :: uint32))
        \<notin> {0.5 * real (DESIRED_BASE_FEE example_app) .. 2 * real (DESIRED_BASE_FEE example_app)}
   \<and> validateBallot example_app 11 5 low_fee_ballot 1 aged_herder
        = Inr (emit (Callback 1 False) aged_herder)"
proof -
  let ?b5 = "\<lparr>value_sb = \<lparr>txSetHash = 3, closeTime = 200, baseFee = 5\<rparr>\<rparr>"
  let ?b4 = "\<lparr>value_sb = \<lparr>txSetHash = 3, closeTime = 200, baseFee = 4\<rparr>\<rparr>"
  have d: "DESIRED_BASE_FEE example_app = 10" "MAX_FBA_TIMEOUT_SECONDS example_app = 30"
    by (simp_all add: example_app_def)
  have half: "\<lceil>0.5 * real 10\<rceil> = 5" "\<lfloor>0.5 * real 10\<rfloor> = 5"
    by simp_all
  have dec: "xdr_from_opaque example_app (value_fb \<lparr>counter = 6, value_fb = [3, 200, 5]\<rparr>)
               = Some ?b5"
    "xdr_from_opaque example_app (value_fb low_fee_ballot) = Some ?b4"
    by (simp_all add: example_app_def low_fee_ballot_def)
  have ct: "\<not> closeTime_too_far example_app ?b5" "\<not> closeTime_too_far example_app ?b4"
    by (simp_all add: closeTime_too_far_def example_app_def)
  have sum: "sumTimeouts_loop (MAX_FBA_TIMEOUT_SECONDS example_app)
               (unat (counter \<lparr>counter = 6, value_fb = [3, 200, 5]\<rparr>)) 0 0 = Inr 61"
    "sumTimeouts_loop (MAX_FBA_TIMEOUT_SECONDS example_app) (unat (counter low_fee_ballot)) 0 0
       = Inr 61"
    by (simp_all add: d sumTimeouts_loop_30_6 low_fee_ballot_def)
  have cnt: "\<not> counter_too_fast example_app (mLastTrigger aged_herder) 61"
    by (simp add: counter_too_fast_def example_app_def aged_herder_def synced_herder_def
        Herder_new_def)
  have hit: "fetchTxSet 3 True aged_herder
               = (Some \<lparr>mTransactions = [11, 21], mPreviousLedgerHash = 7\<rparr>, aged_herder)"
    by (rule fetchTxSet_cached)
       (simp add: cached_def aged_herder_def synced_herder_def Herder_new_def)
  have bucket: "mReceivedTransactions aged_herder = [[31], [], [], [11]]"
    by (simp add: aged_herder_def synced_herder_def Herder_new_def)
  have five: "validateBallot example_app 11 5 \<lparr>counter = 6, value_fb = [3, 200, 5]\<rparr> 1 aged_herder
                = Inr (emit (Callback 1 True) aged_herder)"
    using baseFee_check_interval [OF dec(1) ct(1) sum(1) cnt, where slot = 11 and node = 5
        and cb = 1]
    by (simp add: d hit bucket)
  have four: "validateBallot example_app 11 5 low_fee_ballot 1 aged_herder
                = Inr (emit (Callback 1 False) aged_herder)"
    using baseFee_check_interval [OF dec(2) ct(2) sum(2) cnt, where slot = 11 and node = 5
        and cb = 1]
    by (simp add: d)
  show ?thesis
    using dec ct sum(2) cnt five four by (simp add: d half)
qed

section \<open>recvTransaction\<close>

text \<open>
  C10: when a transaction of some bucket has the full hash of \<open>tx\<close>,
  \<^verbatim>\<open>recvTransaction\<close> returns false and leaves the herder, and so every bucket, as
  it was; and whenever it returns true, \<open>tx\<close> has been appended to bucket 0 and the
  other three buckets are as they were.
\<close>

theorem recvTransaction_duplicate_or_appended:
  "((\<exists>old\<in>set (concat (mReceivedTransactions s)). getFullHash app old = getFullHash app tx)
      \<longrightarrow> recvTransaction app tx s = (False, s))
   \<and> (wf_herder s \<and> fst (recvTransaction app tx s)
      \<longrightarrow> snd (recvTransaction app tx s)
            = s\<lparr>mReceivedTransactions :=
                  (mReceivedTransactions s)[0 := mReceivedTransactions s ! 0 @ [tx]]\<rparr>
          \<and> mReceivedTransactions (snd (recvTransaction app tx s)) ! 0
            = mReceivedTransactions s ! 0 @ [tx]
          \<and> (\<forall>i. 0 < i \<and> i < 4 \<longrightarrow>
                mReceivedTransactions (snd (recvTransaction app tx s)) ! i
                  = mReceivedTransactions s ! i)
          \<and> length (mReceivedTransactions (snd (recvTransaction app tx s))) = 4)"
proof -
  have dup: "recvTransaction app tx s = (False, s)"
    if "\<exists>old\<in>set (concat (mReceivedTransactions s)). getFullHash app old = getFullHash app tx"
    using scan_received_duplicate [OF that, of 0] by (simp add: recvTransaction_def)
  have app: "snd (recvTransaction app tx s)
            = s\<lparr>mReceivedTransactions :=
                  (mReceivedTransactions s)[0 := mReceivedTransactions s ! 0 @ [tx]]\<rparr>"
    if "fst (recvTransaction app tx s)"
    using that by (auto simp: recvTransaction_def split: option.splits if_splits)
  have rest: "mReceivedTransactions (snd (recvTransaction app tx s)) ! 0
            = mReceivedTransactions s ! 0 @ [tx]
          \<and> (\<forall>i. 0 < i \<and> i < 4 \<longrightarrow>
                mReceivedTransactions (snd (recvTransaction app tx s)) ! i
                  = mReceivedTransactions s ! i)
          \<and> length (mReceivedTransactions (snd (recvTransaction app tx s))) = 4"
    if "wf_herder s" "fst (recvTransaction app tx s)"
    using that(1) by (simp add: app [OF that(2)] wf_herder_def)
  from dup app rest show ?thesis by blast
qed

text \<open>
  The theorem on the frame 12, which carries the transaction of the frame 11 in the
  oldest bucket, and on the new transaction 42.
\<close>

theorem recvTransaction_duplicate_or_appended_witness:
  "getFullHash example_app 11 = getFullHash example_app 12
   \<and> 11 \<in> set (concat (mReceivedTransactions aged_herder))
   \<and> recvTransaction example_app 12 aged_herder = (False, aged_herder)
   \<and> wf_herder aged_herder
   \<and> fst (recvTransaction example_app 42 aged_herder)
   \<and> mReceivedTransactions (snd (recvTransaction example_app 42 aged_herder))
        = [[31, 42], [], [], [11]]"
proof -
  have dup: "\<exists>old\<in>set (concat (mReceivedTransactions aged_herder)).
               getFullHash example_app old = getFullHash example_app 12"
    by (simp add: aged_herder_def example_app_def)
  have ok: "fst (recvTransaction example_app 42 aged_herder)"
    by (simp add: recvTransaction_def aged_herder_def example_app_def)
  show ?thesis
    using recvTransaction_duplicate_or_appended [where app = example_app and tx = 12
        and s = aged_herder]
      recvTransaction_duplicate_or_appended [where app = example_app and tx = 42
        and s = aged_herder]
      dup ok wf_aged_herder
    by (simp add: example_app_def) (simp add: aged_herder_def)
qed

section \<open>Lemmas on deferred validation\<close>


lemma verdict_effects [simp]: "verdict app k T (s\<lparr>effects := e\<rparr>) = verdict app k T s"
  by (cases k) auto

lemma wf_herder_effects [simp]: "wf_herder (s\<lparr>effects := e\<rparr>) = wf_herder s"
  by (simp add: wf_herder_def)










lemma verdict_deferred:
  "wf_herder s \<Longrightarrow> cached s h = None \<Longrightarrow>
   verdict app k' T (push_fetch h k (snd (fetchTxSet h True s))) = verdict app k' T s"
  by (cases k') (auto simp: fetchTxSet_absent push_fetch_def)








section \<open>Fetch, then validate\<close>




section \<open>Lemmas on externalization\<close>

lemma removeReceivedTx_all:
  "foldl (\<lambda>t tx. removeReceivedTx app tx t) s txs = s"
  by (induction txs) (simp_all add: removeReceivedTx_def Let_def)

lemma broadcast_all:
  "foldl (\<lambda>t tx. emit (BroadcastTransaction tx) t) s txs
     = s\<lparr>effects := effects s @ map BroadcastTransaction txs\<rparr>"
  by (induction txs arbitrary: s) (simp_all add: emit_def)

lemma wf_full_herder: "wf_herder full_herder"
  by (simp add: wf_herder_def full_herder_def aged_herder_def synced_herder_def Herder_new_def)

lemma externalized_herder_eq:
  "valueExternalized example_app 11 [3, 200, 10] full_herder
     = Inr (full_herder
       \<lparr>mReceivedTransactions := [[], [31], [41], [11]],
        mTxSetFetcher :=
          [\<lparr>items = [3 \<mapsto> \<lparr>mTransactions = [11, 21], mPreviousLedgerHash = 7\<rparr>],
            fetching = {}\<rparr>,
           empty_fetcher],
        mCurrentTxSetFetcher := 1,
        effects := [BumpTimerCancel,
                    ExternalizeValue \<lparr>mTransactions = [11, 21], mPreviousLedgerHash = 7\<rparr>,
                    BroadcastTransaction 41]\<rparr>)"
  by (simp add: valueExternalized_def fetchTxSet_def fetchItem_def emit_def
      stopFetchingAll_def clear_def removeReceivedTx_def full_herder_def
      example_app_def aged_herder_def synced_herder_def Herder_new_def Let_def)

section \<open>valueExternalized\<close>

text \<open>
  C7, as the code has it, for a value that decodes. If the current fetcher holds the
  TxSet: the fetches of the current fetcher are stopped, the other fetcher becomes
  the current one and is cleared (the fetcher that was current keeps what it
  holds), the TxSet is handed to the ledger by \<^verbatim>\<open>externalizeValue\<close>, the
  transactions of bucket 1 are broadcast and the buckets are shifted. If the
  current fetcher does not hold the TxSet: the bump timer is cancelled and an error
  is logged, and nothing else changes (no rotation, no \<^verbatim>\<open>externalizeValue\<close>, the
  buckets as they were).
\<close>

theorem valueExternalized_rotation:
  assumes wf: "wf_herder s"
    and dec: "xdr_from_opaque app v = Some b"
  shows "(cached s (txSetHash (value_sb b)) = Some T \<longrightarrow>
            valueExternalized app slot v s
              = Inr (s\<lparr>mTxSetFetcher :=
                        (mTxSetFetcher s)
                          [mCurrentTxSetFetcher s :=
                             stopFetchingAll (mTxSetFetcher s ! mCurrentTxSetFetcher s),
                           1 - mCurrentTxSetFetcher s := empty_fetcher],
                      mCurrentTxSetFetcher := 1 - mCurrentTxSetFetcher s,
                      effects :=
                        effects s @ [BumpTimerCancel, ExternalizeValue T]
                          @ map BroadcastTransaction (mReceivedTransactions s ! 1),
                      mReceivedTransactions := shift_received 3 (mReceivedTransactions s)\<rparr>))
       \<and> (cached s (txSetHash (value_sb b)) = None \<longrightarrow>
            valueExternalized app slot v s
              = Inr (s\<lparr>effects := effects s @ [BumpTimerCancel, ErrorLogged]\<rparr>))"
proof -
  have len: "length (mReceivedTransactions s) = 4" and cur: "mCurrentTxSetFetcher s < 2"
    using wf by (simp_all add: wf_herder_def)
  let ?s0 = "emit BumpTimerCancel s"
  have c0: "cached ?s0 h = cached s h" for h
    by (simp add: cached_def emit_def)
  have hit: "valueExternalized app slot v s
              = Inr (s\<lparr>mTxSetFetcher :=
                        (mTxSetFetcher s)
                          [mCurrentTxSetFetcher s :=
                             stopFetchingAll (mTxSetFetcher s ! mCurrentTxSetFetcher s),
                           1 - mCurrentTxSetFetcher s := empty_fetcher],
                      mCurrentTxSetFetcher := 1 - mCurrentTxSetFetcher s,
                      effects :=
                        effects s @ [BumpTimerCancel, ExternalizeValue T]
                          @ map BroadcastTransaction (mReceivedTransactions s ! 1),
                      mReceivedTransactions := shift_received 3 (mReceivedTransactions s)\<rparr>)"
    if "cached s (txSetHash (value_sb b)) = Some T"
  proof -
    have f: "fetchTxSet (txSetHash (value_sb b)) False ?s0 = (Some T, ?s0)"
      using that by (simp add: fetchTxSet_cached c0)
    have one: "(if mCurrentTxSetFetcher s \<noteq> 0 then 0 else 1) = 1 - mCurrentTxSetFetcher s"
      using cur by auto
    show ?thesis
      using len
      by (simp add: valueExternalized_def dec f Let_def removeReceivedTx_all broadcast_all
          clear_def one)
         (simp add: emit_def)
  qed
  have miss: "valueExternalized app slot v s
              = Inr (s\<lparr>effects := effects s @ [BumpTimerCancel, ErrorLogged]\<rparr>)"
    if "cached s (txSetHash (value_sb b)) = None"
  proof -
    have f: "fetchTxSet (txSetHash (value_sb b)) False ?s0 = (None, ?s0)"
      using that by (simp add: fetchTxSet_absent_quiet c0)
    show ?thesis
      by (simp add: valueExternalized_def dec f Let_def) (simp add: emit_def)
  qed
  from hit miss show ?thesis by blast
qed


text \<open>The theorem on the herder above, for the cached hash 3 and the unknown hash 5.\<close>

theorem valueExternalized_rotation_witness:
  "wf_herder full_herder
   \<and> xdr_from_opaque example_app [3, 200, 10]
        = Some \<lparr>value_sb = \<lparr>txSetHash = 3, closeTime = 200, baseFee = 10\<rparr>\<rparr>
   \<and> cached full_herder 3 = Some \<lparr>mTransactions = [11, 21], mPreviousLedgerHash = 7\<rparr>
   \<and> valueExternalized example_app 11 [3, 200, 10] full_herder
        = Inr (full_herder
            \<lparr>mTxSetFetcher :=
               (mTxSetFetcher full_herder)
                 [0 := stopFetchingAll (mTxSetFetcher full_herder ! 0), 1 := empty_fetcher],
             mCurrentTxSetFetcher := 1,
             effects := [BumpTimerCancel,
                         ExternalizeValue \<lparr>mTransactions = [11, 21], mPreviousLedgerHash = 7\<rparr>,
                         BroadcastTransaction 41],
             mReceivedTransactions := [[], [31], [41], [11]]\<rparr>)
   \<and> xdr_from_opaque example_app [5, 200, 10]
        = Some \<lparr>value_sb = \<lparr>txSetHash = 5, closeTime = 200, baseFee = 10\<rparr>\<rparr>
   \<and> cached full_herder 5 = None
   \<and> valueExternalized example_app 11 [5, 200, 10] full_herder
        = Inr (full_herder\<lparr>effects := [BumpTimerCancel, ErrorLogged]\<rparr>)"
proof -
  have hyps: "xdr_from_opaque example_app [3, 200, 10]
        = Some \<lparr>value_sb = \<lparr>txSetHash = 3, closeTime = 200, baseFee = 10\<rparr>\<rparr>"
    "cached full_herder 3 = Some \<lparr>mTransactions = [11, 21], mPreviousLedgerHash = 7\<rparr>"
    "xdr_from_opaque example_app [5, 200, 10]
        = Some \<lparr>value_sb = \<lparr>txSetHash = 5, closeTime = 200, baseFee = 10\<rparr>\<rparr>"
    "cached full_herder 5 = None"
    "mCurrentTxSetFetcher full_herder = 0" "effects full_herder = []"
    "mReceivedTransactions full_herder = [[31], [41], [], [11]]"
    by (simp_all add: cached_def full_herder_def aged_herder_def synced_herder_def Herder_new_def
        example_app_def)
  have shift: "shift_received 3 [[31], [41], [], [11]] = [[], [31], [41], [11]]"
    by (simp add: eval_nat_numeral)
  show ?thesis
    using valueExternalized_rotation [OF wf_full_herder hyps(1), where slot = 11
        and T = "\<lparr>mTransactions = [11, 21], mPreviousLedgerHash = 7\<rparr>"]
      valueExternalized_rotation [OF wf_full_herder hyps(3), where slot = 11]
      wf_full_herder hyps
    by (simp add: shift)
qed

text \<open>
  C7 as stated fails: after the externalization the fetcher at index 1 is current
  and the one at index 0 is the new other. The new other still holds the TxSet of
  hash 3, so it was not cleared; the one cleared is the new current, which lost the
  TxSet it held under hash 9.
\<close>

theorem valueExternalized_clears_current_counterexample:
  "cached full_herder 3 = Some \<lparr>mTransactions = [11, 21], mPreviousLedgerHash = 7\<rparr>
   \<and> items (mTxSetFetcher full_herder ! 1) 9 = Some \<lparr>mTransactions = [2], mPreviousLedgerHash = 7\<rparr>
   \<and> mCurrentTxSetFetcher full_herder = 0
   \<and> valueExternalized example_app 11 [3, 200, 10] full_herder = Inr externalized_herder
   \<and> mCurrentTxSetFetcher externalized_herder = 1
   \<and> items (mTxSetFetcher externalized_herder ! 0) 3
        = Some \<lparr>mTransactions = [11, 21], mPreviousLedgerHash = 7\<rparr>
   \<and> mTxSetFetcher externalized_herder ! 0 \<noteq> clear (mTxSetFetcher full_herder ! 0)
   \<and> mTxSetFetcher externalized_herder ! 1 = clear (mTxSetFetcher full_herder ! 1)
   \<and> items (mTxSetFetcher externalized_herder ! 1) 9 = None"
proof -
  have before: "cached full_herder 3 = Some \<lparr>mTransactions = [11, 21], mPreviousLedgerHash = 7\<rparr>"
    "items (mTxSetFetcher full_herder ! 1) 9 = Some \<lparr>mTransactions = [2], mPreviousLedgerHash = 7\<rparr>"
    "mCurrentTxSetFetcher full_herder = 0"
    by (simp_all add: cached_def full_herder_def aged_herder_def synced_herder_def Herder_new_def)
  have run: "valueExternalized example_app 11 [3, 200, 10] full_herder = Inr externalized_herder"
    by (simp add: externalized_herder_def externalized_herder_eq)
  have kept: "items (mTxSetFetcher externalized_herder ! 0) 3
        = Some \<lparr>mTransactions = [11, 21], mPreviousLedgerHash = 7\<rparr>"
    by (simp add: externalized_herder_def externalized_herder_eq)
  then have not_cleared: "mTxSetFetcher externalized_herder ! 0 \<noteq> clear (mTxSetFetcher full_herder ! 0)"
    by (auto simp: clear_def empty_fetcher_def)
  have after: "mCurrentTxSetFetcher externalized_herder = 1"
    "mTxSetFetcher externalized_herder ! 1 = clear (mTxSetFetcher full_herder ! 1)"
    "items (mTxSetFetcher externalized_herder ! 1) 9 = None"
    by (simp_all add: externalized_herder_def externalized_herder_eq clear_def empty_fetcher_def)
  from before run kept not_cleared after show ?thesis by simp
qed

section \<open>Lemmas on the trigger\<close>

lemma prepared_append [simp]: "prepared (es @ fs) = prepared es @ prepared fs"
  by (induction es rule: prepared.induct) auto

lemma frame_trigger_refl [simp]: "frame_trigger s s"
  by (simp add: frame_trigger_def)















lemma proposedSet_concat:
  "proposedSet s
     = \<lparr>mTransactions = concat (mReceivedTransactions s),
        mPreviousLedgerHash = hash (mLastClosedLedger s)\<rparr>"
proof -
  have inner: "foldl (\<lambda>t' tx. add_tx tx t') t list = t\<lparr>mTransactions := mTransactions t @ list\<rparr>"
    for t :: TxSetFrame and list
    by (induction list arbitrary: t) (simp_all add: add_tx_def)
  have outer: "foldl (\<lambda>t list. foldl (\<lambda>t' tx. add_tx tx t') t list) t buckets
                 = t\<lparr>mTransactions := mTransactions t @ concat buckets\<rparr>"
    for t :: TxSetFrame and buckets
    by (induction buckets arbitrary: t) (simp_all add: inner)
  show ?thesis
    by (simp add: proposedSet_def outer)
qed







section \<open>triggerNextLedger\<close>





section \<open>Lemmas on future envelopes\<close>

lemma received_future_envelope:
  "recvFBAEnvelope example_app future_envelope 1 aged_herder
     = Inr (aged_herder
       \<lparr>mFutureEnvelopes := [12 \<mapsto> [(future_envelope, 1)]],
        effects := [ReceiveEnvelope future_envelope 1]\<rparr>)"
  by (simp add: recvFBAEnvelope_def receiveEnvelope_def push_future_def
      emit_def maxLedgerSeq_def minLedgerSeq_def Let_def future_envelope_def
      example_app_def aged_herder_def synced_herder_def Herder_new_def)

lemma buffered_herder_eq:
  "buffered_herder =
     aged_herder
       \<lparr>mFutureEnvelopes := [12 \<mapsto> [(future_envelope, 1)]],
        effects := [ReceiveEnvelope future_envelope 1]\<rparr>"
  unfolding buffered_herder_def received_future_envelope by simp

lemma recvTransaction_duplicate:
  "\<exists>old\<in>set (concat (mReceivedTransactions s)). getFullHash app old = getFullHash app tx \<Longrightarrow>
   recvTransaction app tx s = (False, s)"
  using scan_received_duplicate [of "mReceivedTransactions s" app tx 0]
  by (simp add: recvTransaction_def)

lemma recvTransactions_duplicates:
  "set txs \<subseteq> set (concat (mReceivedTransactions s)) \<Longrightarrow>
   foldl (\<lambda>t tx. snd (recvTransaction app tx t)) s txs = s"
proof (induction txs)
  case Nil
  show ?case by simp
next
  case (Cons tx txs)
  then have "\<exists>old\<in>set (concat (mReceivedTransactions s)). getFullHash app old = getFullHash app tx"
    by auto
  then have "recvTransaction app tx s = (False, s)"
    by (rule recvTransaction_duplicate)
  with Cons show ?case by simp
qed

lemma triggering_fields:
  "mReceivedTransactions triggering_herder = [[31], [], [], [11]]"
  "mLastClosedLedger triggering_herder = \<lparr>hash = 8, ledgerSeq = 11, closeTime_lh = 200\<rparr>"
  "mLastTrigger triggering_herder = 1000"
  "mCurrentTxSetFetcher triggering_herder = 0"
  "mTxSetFetches triggering_herder = Map.empty"
  "mLedgersToWaitToParticipate triggering_herder = 0"
  "mFutureEnvelopes triggering_herder = [12 \<mapsto> [(future_envelope, 1)]]"
  "effects triggering_herder = [ReceiveEnvelope future_envelope 1]"
  "mTxSetFetcher triggering_herder
     = [\<lparr>items = [3 \<mapsto> \<lparr>mTransactions = [11, 21], mPreviousLedgerHash = 7\<rparr>], fetching = {}\<rparr>,
        empty_fetcher]"
  by (simp_all add: triggering_herder_def next_ledger_herder_def buffered_herder_eq
      aged_herder_def synced_herder_def Herder_new_def)

lemma triggering_proposed:
  "proposedSet triggering_herder = \<lparr>mTransactions = [31, 11], mPreviousLedgerHash = 8\<rparr>"
  by (simp add: proposedSet_concat triggering_fields)


lemma triggering_fetch:
  "fetchTxSet 50 True triggering_herder
     = (None,
        triggering_herder
          \<lparr>mTxSetFetcher :=
             [\<lparr>items = [3 \<mapsto> \<lparr>mTransactions = [11, 21], mPreviousLedgerHash = 7\<rparr>],
               fetching = {50}\<rparr>,
              empty_fetcher]\<rparr>)"
  by (simp add: fetchTxSet_def fetchItem_def triggering_fields Let_def)

lemma triggering_recvTxSet:
  "recvTxSet example_app \<lparr>mTransactions = [31, 11], mPreviousLedgerHash = 8\<rparr>
     (triggering_herder
        \<lparr>mTxSetFetcher :=
           [\<lparr>items = [3 \<mapsto> \<lparr>mTransactions = [11, 21], mPreviousLedgerHash = 7\<rparr>],
             fetching = {50}\<rparr>,
            empty_fetcher]\<rparr>)
   = triggering_herder
       \<lparr>mTxSetFetcher :=
          [\<lparr>items = [3 \<mapsto> \<lparr>mTransactions = [11, 21], mPreviousLedgerHash = 7\<rparr>,
                     50 \<mapsto> \<lparr>mTransactions = [31, 11], mPreviousLedgerHash = 8\<rparr>],
            fetching = {}\<rparr>,
           empty_fetcher]\<rparr>"
proof -
  have h: "getContentsHash example_app \<lparr>mTransactions = [31, 11], mPreviousLedgerHash = 8\<rparr> = 50"
    by (simp add: example_app_def)
  have d: "snd (recvTransaction example_app 11 (snd (recvTransaction example_app 31 t))) = t"
    if "mReceivedTransactions t = [[31], [], [], [11]]" for t
    using recvTransactions_duplicates [of "[31, 11]" t example_app] that by simp
  show ?thesis
    by (simp add: recvTxSet_def recvItem_def h Let_def triggering_fields d)
qed


lemma replay_receipt:
  assumes "mLedgersToWaitToParticipate t = 0"
    and "mLastClosedLedger t = \<lparr>hash = 8, ledgerSeq = 11, closeTime_lh = 200\<rparr>"
  shows "recvFBAEnvelope example_app future_envelope cb t
           = Inr (t\<lparr>effects := effects t @ [ReceiveEnvelope future_envelope cb]\<rparr>)"
  using assms
  by (simp add: recvFBAEnvelope_def receiveEnvelope_def emit_def maxLedgerSeq_def
      minLedgerSeq_def future_envelope_def example_app_def)

lemma replayed_herder_eq:
  "triggerNextLedger example_app False next_ledger_herder
     = Inr (triggering_herder
       \<lparr>mTxSetFetcher :=
          [\<lparr>items = [3 \<mapsto> \<lparr>mTransactions = [11, 21], mPreviousLedgerHash = 7\<rparr>,
                     50 \<mapsto> \<lparr>mTransactions = [31, 11], mPreviousLedgerHash = 8\<rparr>],
            fetching = {}\<rparr>,
           empty_fetcher],
        mLocalValue := [50, 232, 10],
        effects := [ReceiveEnvelope future_envelope 1,
                    PrepareValue 12 [50, 232, 10] False,
                    ReceiveEnvelope future_envelope 1],
        mFutureEnvelopes := Map.empty\<rparr>)"
proof -
  have now: "clockNow example_app = 1000"
    and h: "getContentsHash example_app \<lparr>mTransactions = [31, 11], mPreviousLedgerHash = 8\<rparr> = 50"
    by (simp_all add: example_app_def)
  have s1: "next_ledger_herder\<lparr>mLastTrigger := 1000\<rparr> = triggering_herder"
    by (simp add: triggering_herder_def)
  have b: "xdr_to_opaque example_app
             (proposedBallot example_app \<lparr>mTransactions = [31, 11], mPreviousLedgerHash = 8\<rparr> t)
           = [50, 232, 10]"
    if "mLastTrigger t = 1000"
      "mLastClosedLedger t = \<lparr>hash = 8, ledgerSeq = 11, closeTime_lh = 200\<rparr>" for t
    using that by (simp add: proposedBallot_def nextCloseTime_def example_app_def example_encode_def)
  show ?thesis
    by (simp add: triggerNextLedger_def now s1 triggering_proposed h triggering_fetch
        triggering_recvTxSet triggering_fields b emit_def replay_receipt Let_def)
qed

section \<open>Future envelopes\<close>

text \<open>
  C2 on the code: with the last closed ledger at 10, a validity bracket of 10 and no
  ledger left to wait, an envelope for slot 12 is appended with its callback to the
  future envelopes of slot 12, and the function does not return there: it goes on
  to \<^verbatim>\<open>receiveEnvelope\<close>, so the envelope is handed to the slot machine at
  receipt. When ledger 11 is the last closed one and \<^verbatim>\<open>triggerNextLedger\<close> runs
  for slot 12, the envelope is handed to the slot machine again, after
  \<^verbatim>\<open>prepareValue\<close>, and the bucket of slot 12 is discarded: the slot machine has
  received the envelope twice.
\<close>

theorem future_envelope_handed_twice:
  "mLedgersToWaitToParticipate aged_herder = 0
   \<and> ledgerSeq (mLastClosedLedger aged_herder) = 10
   \<and> LEDGER_VALIDITY_BRACKET example_app = 10
   \<and> slotIndex future_envelope = 12
   \<and> effects aged_herder = []
   \<and> recvFBAEnvelope example_app future_envelope 1 aged_herder = Inr buffered_herder
   \<and> effects buffered_herder = [ReceiveEnvelope future_envelope 1]
   \<and> mFutureEnvelopes buffered_herder 12 = Some [(future_envelope, 1)]
   \<and> ledgerSeq (mLastClosedLedger next_ledger_herder) + 1 = 12
   \<and> triggerNextLedger example_app False next_ledger_herder = Inr replayed_herder
   \<and> effects replayed_herder
        = [ReceiveEnvelope future_envelope 1,
           PrepareValue 12 (mLocalValue replayed_herder) False,
           ReceiveEnvelope future_envelope 1]
   \<and> mFutureEnvelopes replayed_herder 12 = None"
proof -
  have before: "mLedgersToWaitToParticipate aged_herder = 0"
    "ledgerSeq (mLastClosedLedger aged_herder) = 10"
    "LEDGER_VALIDITY_BRACKET example_app = 10"
    "slotIndex future_envelope = 12"
    "effects aged_herder = []"
    by (simp_all add: aged_herder_def synced_herder_def Herder_new_def example_app_def
        future_envelope_def)
  have receipt: "recvFBAEnvelope example_app future_envelope 1 aged_herder = Inr buffered_herder"
    "effects buffered_herder = [ReceiveEnvelope future_envelope 1]"
    "mFutureEnvelopes buffered_herder 12 = Some [(future_envelope, 1)]"
    unfolding buffered_herder_eq by (rule received_future_envelope) simp_all
  have slot: "ledgerSeq (mLastClosedLedger next_ledger_herder) + 1 = 12"
    by (simp add: next_ledger_herder_def)
  have replay: "triggerNextLedger example_app False next_ledger_herder = Inr replayed_herder"
    "effects replayed_herder
        = [ReceiveEnvelope future_envelope 1,
           PrepareValue 12 (mLocalValue replayed_herder) False,
           ReceiveEnvelope future_envelope 1]"
    "mFutureEnvelopes replayed_herder 12 = None"
    by (simp_all add: replayed_herder_def replayed_herder_eq)
  from before receipt slot replay show ?thesis by simp
qed

end
